theory Spec2Isabelle
  imports Complex_Main
begin

section \<open>Values: Python floats, numpy arrays, HDF5 attributes\<close>

text \<open>
  The script \<^verbatim>\<open>tools/createExamples_h5.py\<close> stores Python floats (IEEE binary64) as
  attributes and writes numpy arrays into datasets of dtype \<^verbatim>\<open>'f4'\<close> (IEEE binary32).
  A float is modelled by the rational number it denotes, or by one of the three special
  values. The two zeros are identified. No arithmetic is done on floats by the script:
  the only operations are reading a decimal literal (rounding to binary64, to nearest,
  ties to even) and storing a binary64 value into an \<^verbatim>\<open>'f4'\<close> dataset (conversion to
  binary32: to nearest, ties to even, within the range of binary32, and an infinity
  beyond it).
\<close>

datatype pyfloat = Fin rat | PInf | NInf | NaN

definition pow2 :: "int \<Rightarrow> rat" where
  "pow2 e = (if 0 \<le> e then 2 ^ nat e else 1 / 2 ^ nat (- e))"

function bitlen :: "int \<Rightarrow> int" where
  "bitlen n = (if n \<le> 0 then 0 else 1 + bitlen (n div 2))"
  by pat_completeness auto
termination
  by (relation "measure nat") auto

definition ilog2 :: "rat \<Rightarrow> int" where
  \<comment> \<open>the exponent \<open>e\<close> with \<open>2^e \<le> x < 2^(e+1)\<close>, for \<open>0 < x\<close>\<close>
  "ilog2 x = (if 1 \<le> x then bitlen \<lfloor>x\<rfloor> - 1 else - bitlen (\<lceil>1 / x\<rceil> - 1))"

definition round_half_even :: "rat \<Rightarrow> int" where
  "round_half_even y =
     (let n = \<lfloor>y\<rfloor>; d = y - of_int n
      in if d < 1 / 2 then n else if 1 / 2 < d then n + 1
         else if even n then n else n + 1)"

definition round_bin :: "nat \<Rightarrow> int \<Rightarrow> int \<Rightarrow> rat \<Rightarrow> pyfloat" where
  \<comment> \<open>rounding to a binary format of precision \<open>p\<close> and exponent range \<open>emin..emax\<close>\<close>
  "round_bin p emin emax x =
     (if x = 0 then Fin 0
      else let e = max (ilog2 \<bar>x\<bar>) emin;
               u = pow2 (e - (int p - 1));
               r = of_int (round_half_even (x / u)) * u
           in if emax < ilog2 \<bar>r\<bar> then (if 0 < x then PInf else NInf)
              else Fin r)"

definition float_lit :: "rat \<Rightarrow> pyfloat" where
  \<comment> \<open>the binary64 value of a decimal literal such as \<^verbatim>\<open>1.e-9\<close>\<close>
  "float_lit x = round_bin 53 (- 1022) 1023 x"

definition flt_max :: rat where
  \<comment> \<open>the largest finite binary32 number\<close>
  "flt_max = 2 ^ 128 - 2 ^ 104"

fun f4 :: "pyfloat \<Rightarrow> pyfloat" where
  \<comment> \<open>the value stored in a dataset of dtype \<^verbatim>\<open>'f4'\<close>: the HDF5 conversion of a binary64
      value stores an infinity for every value beyond the largest binary32 number, and
      the nearest binary32 number otherwise\<close>
  "f4 (Fin x) =
     (if flt_max < x then PInf
      else if x < - flt_max then NInf
      else round_bin 24 (- 126) 127 x)"
| "f4 v = v"

text \<open>
  The writers take two-dimensional arrays (\<^verbatim>\<open>2darray\<close> in their docstrings): the shape
  is the pair of the two extents and the elements are kept in C order. A complex
  element is the pair of its real and imaginary parts.
\<close>

record 'a array2d =
  nrows :: nat
  ncols :: nat
  elems :: "'a list"

type_synonym pycomplex = "pyfloat \<times> pyfloat"

definition shape :: "'a array2d \<Rightarrow> nat list" where
  "shape a = [nrows a, ncols a]"

definition wf_array :: "'a array2d \<Rightarrow> bool" where
  "wf_array a \<longleftrightarrow> length (elems a) = nrows a * ncols a"

definition real_part :: "pycomplex array2d \<Rightarrow> pyfloat array2d" where
  "real_part a = \<lparr>nrows = nrows a, ncols = ncols a, elems = map fst (elems a)\<rparr>"

definition imag_part :: "pycomplex array2d \<Rightarrow> pyfloat array2d" where
  "imag_part a = \<lparr>nrows = nrows a, ncols = ncols a, elems = map snd (elems a)\<rparr>"

datatype attr = AStr string | AFloat pyfloat | AArray "pyfloat list"

definition np_array :: "rat list \<Rightarrow> attr" where
  \<comment> \<open>\<^verbatim>\<open>np.array([...])\<close> of float literals\<close>
  "np_array xs = AArray (map float_lit xs)"

section \<open>The file: groups and datasets with attributes\<close>

text \<open>
  An h5py file is a tree of groups and datasets, each with named attributes. It is
  modelled by the attributes of the root group and a map from the absolute path of every
  other node (the list of its components) to the node. A dataset holds its shape and
  its elements in C order.
\<close>

datatype node =
    Group "string \<rightharpoonup> attr"
  | Dataset "nat list" "pyfloat list" "string \<rightharpoonup> attr"

record h5file =
  root_attrs :: "string \<rightharpoonup> attr"
  nodes :: "string list \<rightharpoonup> node"

datatype error =
    KeyError string
  | ValueError string
  | TypeError string
  | NameError string

text \<open>
  A statement either completes with the new file, or raises and leaves the file as it
  was when the exception was raised.
\<close>

type_synonym res = "(error \<times> h5file) + h5file"

fun seq :: "(h5file \<Rightarrow> res) list \<Rightarrow> h5file \<Rightarrow> res" where
  "seq [] f = Inr f"
| "seq (s # ss) f = (case s f of Inl e \<Rightarrow> Inl e | Inr f' \<Rightarrow> seq ss f')"

definition h5_File_w :: h5file where
  \<comment> \<open>\<^verbatim>\<open>h5.File("example.h5", "w")\<close>: a new, empty file\<close>
  "h5_File_w = \<lparr>root_attrs = Map.empty, nodes = Map.empty\<rparr>"

subsection \<open>Paths\<close>

fun split_on :: "char \<Rightarrow> string \<Rightarrow> string list" where
  "split_on c [] = [[]]"
| "split_on c (x # xs) =
     (if x = c then [] # split_on c xs
      else (case split_on c xs of [] \<Rightarrow> [[x]] | w # ws \<Rightarrow> (x # w) # ws))"

definition path_components :: "string \<Rightarrow> string list" where
  \<comment> \<open>HDF5 path resolution from the root: empty components and \<^verbatim>\<open>.\<close> are skipped\<close>
  "path_components p = filter (\<lambda>s. s \<noteq> [] \<and> s \<noteq> ''.'') (split_on CHR ''/'' p)"

definition ancestors :: "string list \<Rightarrow> string list list" where
  \<comment> \<open>the groups on the way to a node, the root apart\<close>
  "ancestors c = map (\<lambda>n. take n c) [1..<length c]"

fun is_dataset :: "node option \<Rightarrow> bool" where
  "is_dataset (Some (Dataset s d a)) = True"
| "is_dataset _ = False"

fun add_groups :: "string list list \<Rightarrow> (string list \<rightharpoonup> node) \<Rightarrow> (string list \<rightharpoonup> node)" where
  "add_groups [] m = m"
| "add_groups (q # qs) m =
     add_groups qs (if m q = None then m(q \<mapsto> Group Map.empty) else m)"

subsection \<open>The h5py operations the script uses\<close>

text \<open>
  Only what the script calls is modelled. Creating a node creates the groups that are
  missing on the way and fails when the name exists or when a dataset is in the way
  (\<^verbatim>\<open>create_dataset\<close> looks at the parent first and raises \<^verbatim>\<open>TypeError\<close> when it is a
  dataset); looking up a path that does not exist, or the empty path, raises
  \<^verbatim>\<open>KeyError\<close>. A new dataset reads as zeros.
  An assignment to a dataset converts every element to the dataset's dtype, which is
  \<^verbatim>\<open>'f4'\<close> throughout the script. The writers only ever assign an array to a selection of
  its own shape; for any other shape the model raises, although h5py would broadcast
  some of them.
\<close>

definition create_node :: "string \<Rightarrow> node \<Rightarrow> h5file \<Rightarrow> res" where
  \<comment> \<open>missing intermediate groups are created; an existing name is an error\<close>
  "create_node path nd f =
     (let c = path_components path
      in if c = [] then Inl (ValueError ''name already exists'', f)
         else if list_ex (\<lambda>q. is_dataset (nodes f q)) (ancestors c)
           then Inl (ValueError ''not a group'', f)
         else if nodes f c \<noteq> None then Inl (ValueError ''name already exists'', f)
         else Inr (f\<lparr>nodes := (add_groups (ancestors c) (nodes f))(c \<mapsto> nd)\<rparr>))"

definition create_dataset :: "string \<Rightarrow> nat list \<Rightarrow> h5file \<Rightarrow> res" where
  \<comment> \<open>\<^verbatim>\<open>f.create_dataset(path, shape, dtype='f4')\<close>: the new dataset reads as zeros\<close>
  "create_dataset path shp f =
     (let c = path_components path
      in if 1 < length c \<and> is_dataset (nodes f (butlast c))
         then Inl (TypeError ''Incompatible object (Dataset) already exists'', f)
         else create_node path (Dataset shp (replicate (prod_list shp) (Fin 0)) Map.empty) f)"

definition create_group :: "string \<Rightarrow> h5file \<Rightarrow> res" where
  \<comment> \<open>\<^verbatim>\<open>f.create_group(path)\<close>\<close>
  "create_group path f = create_node path (Group Map.empty) f"

definition set_attr :: "string \<Rightarrow> string \<Rightarrow> attr \<Rightarrow> h5file \<Rightarrow> res" where
  \<comment> \<open>\<^verbatim>\<open>f[path].attrs[name] = v\<close>\<close>
  "set_attr path name v f =
     (if path = [] then Inl (KeyError path, f) else
      case path_components path of
        [] \<Rightarrow> Inr (f\<lparr>root_attrs := (root_attrs f)(name \<mapsto> v)\<rparr>)
      | x # xs \<Rightarrow>
         (case nodes f (x # xs) of
            None \<Rightarrow> Inl (KeyError path, f)
          | Some (Group a) \<Rightarrow>
              Inr (f\<lparr>nodes := (nodes f)(x # xs \<mapsto> Group (a(name \<mapsto> v)))\<rparr>)
          | Some (Dataset s d a) \<Rightarrow>
              Inr (f\<lparr>nodes := (nodes f)(x # xs \<mapsto> Dataset s d (a(name \<mapsto> v)))\<rparr>)))"

definition write_layer :: "string \<Rightarrow> nat \<Rightarrow> pyfloat array2d \<Rightarrow> h5file \<Rightarrow> res" where
  \<comment> \<open>\<^verbatim>\<open>f[path][k,:,:] = a[:,:]\<close>, the elements converted to the dataset's dtype\<close>
  "write_layer path k a f =
     (let c = path_components path
      in case (if path = [] then None
               else if c = [] then Some (Group (root_attrs f)) else nodes f c) of
           None \<Rightarrow> Inl (KeyError path, f)
         | Some (Group ats) \<Rightarrow> Inl (TypeError ''not a dataset'', f)
         | Some (Dataset s d ats) \<Rightarrow>
            (case s of
               [n, h, w] \<Rightarrow>
                 if \<not> k < n then Inl (ValueError ''index out of range'', f)
                 else if shape a \<noteq> [h, w] then Inl (TypeError ''cannot broadcast'', f)
                 else Inr (f\<lparr>nodes := (nodes f)(c \<mapsto>
                        Dataset s (take (k * (h * w)) d @ map f4 (elems a)
                                    @ drop ((k + 1) * (h * w)) d) ats)\<rparr>)
             | _ \<Rightarrow> Inl (TypeError ''wrong number of indices'', f)))"

definition write_all :: "string \<Rightarrow> pyfloat array2d \<Rightarrow> h5file \<Rightarrow> res" where
  \<comment> \<open>\<^verbatim>\<open>f[path][:,:] = a[:,:]\<close>, the elements converted to the dataset's dtype\<close>
  "write_all path a f =
     (let c = path_components path
      in case (if path = [] then None
               else if c = [] then Some (Group (root_attrs f)) else nodes f c) of
           None \<Rightarrow> Inl (KeyError path, f)
         | Some (Group ats) \<Rightarrow> Inl (TypeError ''not a dataset'', f)
         | Some (Dataset s d ats) \<Rightarrow>
            if s \<noteq> shape a then Inl (TypeError ''cannot broadcast'', f)
            else Inr (f\<lparr>nodes := (nodes f)(c \<mapsto> Dataset s (map f4 (elems a)) ats)\<rparr>))"

definition read_layer :: "h5file \<Rightarrow> string list \<Rightarrow> nat \<Rightarrow> pyfloat list option" where
  \<comment> \<open>reading \<^verbatim>\<open>dset[k,:,:]\<close> of the three-dimensional dataset at a path\<close>
  "read_layer f c k =
     (case nodes f c of
        Some (Dataset [n, h, w] d ats) \<Rightarrow>
          if k < n then Some (take (h * w) (drop (k * (h * w)) d)) else None
      | _ \<Rightarrow> None)"

definition full_path :: "h5file \<Rightarrow> string \<Rightarrow> string \<Rightarrow> error + string" where
  \<comment> \<open>\<^verbatim>\<open>f.attrs["basePath"] + f.attrs[sub] + leaf\<close>\<close>
  "full_path f sub leaf =
     (case root_attrs f ''basePath'' of
        None \<Rightarrow> Inl (KeyError ''basePath'')
      | Some b \<Rightarrow>
         (case root_attrs f sub of
            None \<Rightarrow> Inl (KeyError sub)
          | Some s \<Rightarrow>
             (case (b, s) of
                (AStr x, AStr y) \<Rightarrow> Inr (x @ y @ leaf)
              | _ \<Rightarrow> Inl (TypeError ''unsupported operand types''))))"

subsection \<open>String formatting\<close>

definition digit :: "nat \<Rightarrow> char" where
  "digit d = ''0123456789'' ! d"

function digits :: "nat \<Rightarrow> string" where
  "digits n = (if n < 10 then [digit n] else digits (n div 10) @ [digit (n mod 10)])"
  by pat_completeness auto
termination
  by (relation "measure id") auto

definition fmt_d :: "int \<Rightarrow> string" where
  \<comment> \<open>\<^verbatim>\<open>"%d" % i\<close>\<close>
  "fmt_d i = (if i < 0 then CHR ''-'' # digits (nat (- i)) else digits (nat i))"

section \<open>The writers\<close>

definition setup_root_attr :: "h5file \<Rightarrow> int \<Rightarrow> string \<Rightarrow> h5file" where
  \<comment> \<open>\<open>now\<close> is the formatted local time,
      \<^verbatim>\<open>datetime.datetime.now(tzlocal()).strftime('%Y-%m-%d %H:%M:%S %z')\<close>\<close>
  "setup_root_attr f iteration now =
     f\<lparr>root_attrs := (root_attrs f)
        (''version'' \<mapsto> AStr ''1.0.0'',
         ''basePath'' \<mapsto> AStr (''/data/'' @ fmt_d iteration @ ''/''),
         ''fieldsPath'' \<mapsto> AStr ''fields/'',
         ''particlesPath'' \<mapsto> AStr ''particles/'',
         ''iterationEncoding'' \<mapsto> AStr ''fileBased'',
         ''iterationFormat'' \<mapsto> AStr ''/data/%T/'',
         ''author'' \<mapsto> AStr ''Axel Huebl <a.huebl@hzdr.de>'',
         ''software'' \<mapsto> AStr ''OpenPMD Example Script'',
         ''date'' \<mapsto> AStr now,
         ''comment'' \<mapsto> AStr ''This is a dummy file for test purposes.'')\<rparr>"

definition add_EDPIC_attr_fields :: "h5file \<Rightarrow> string \<Rightarrow> res" where
  "add_EDPIC_attr_fields f fieldName =
     seq [set_attr fieldName ''fieldSolver'' (AStr ''Yee''),
          set_attr fieldName ''fieldSolverOrder'' (AFloat (float_lit 2)),
          set_attr fieldName ''fieldSmoothing'' (AStr ''none''),
          set_attr fieldName ''currentSmoothing'' (AStr ''none''),
          set_attr fieldName ''chargeCorrection'' (AStr ''none'')] f"

definition add_EDPIC_attr_particles :: "h5file \<Rightarrow> string \<Rightarrow> res" where
  "add_EDPIC_attr_particles f particleName =
     seq [set_attr particleName ''particleShape'' (AFloat (float_lit 3)),
          set_attr particleName ''currentDeposition'' (AStr ''Esirkepov''),
          set_attr particleName ''particlePush'' (AStr ''Boris''),
          set_attr particleName ''particleInterpolation'' (AStr ''Trilinear''),
          set_attr particleName ''particleSmoothing'' (AStr ''none'')] f"

definition shape_check :: "'a array2d \<Rightarrow> 'b array2d \<Rightarrow> h5file \<Rightarrow> res" where
  "shape_check mode0 mode1 f =
     (if shape mode0 \<noteq> shape mode1
      then Inl (ValueError ''`mode0` and `mode1` should have the same shape'', f)
      else Inr f)"

definition write_rho_cylindrical ::
    "h5file \<Rightarrow> pyfloat array2d \<Rightarrow> pycomplex array2d \<Rightarrow> res" where
  "write_rho_cylindrical f mode0 mode1 =
     (case full_path f ''fieldsPath'' ''rho'' of
        Inl e \<Rightarrow> Inl (e, f)
      | Inr full_rho_path \<Rightarrow>
         seq [create_dataset full_rho_path [3, nrows mode0, ncols mode0],
              set_attr full_rho_path ''geometry'' (AStr ''cylindrical''),
              set_attr full_rho_path ''geometryParameters'' (AStr ''m=1; imag=+''),
              set_attr full_rho_path ''unitSI'' (AFloat (float_lit 1)),
              set_attr full_rho_path ''unitDimension'' (np_array [- 3, 0, 1, 1, 0, 0, 0]),
              set_attr full_rho_path ''time'' (AFloat (float_lit 0)),
              set_attr full_rho_path ''timeUnitSI'' (AFloat (float_lit (1 / 10 ^ 9))),
              set_attr full_rho_path ''gridSpacing'' (np_array [1, 1]),
              set_attr full_rho_path ''gridGlobalOffset'' (np_array [0, 0]),
              set_attr full_rho_path ''position'' (np_array [0, 0]),
              set_attr full_rho_path ''gridUnitSI'' (AFloat (float_lit 1)),
              set_attr full_rho_path ''dataOrder'' (AStr ''C''),
              (\<lambda>f. add_EDPIC_attr_fields f full_rho_path),
              shape_check mode0 mode1,
              write_layer full_rho_path 0 mode0,
              write_layer full_rho_path 1 (real_part mode1),
              write_layer full_rho_path 2 (imag_part mode1)] f)"

definition write_e_2d_cartesian ::
    "h5file \<Rightarrow> pyfloat array2d \<Rightarrow> pyfloat array2d \<Rightarrow> pyfloat array2d \<Rightarrow> res" where
  "write_e_2d_cartesian f data_ex data_ey data_ez =
     (case full_path f ''fieldsPath'' ''E/'' of
        Inl e \<Rightarrow> Inl (e, f)
      | Inr full_e_path \<Rightarrow>
         seq [create_dataset (full_e_path @ ''x'') (shape data_ex),
              create_dataset (full_e_path @ ''y'') (shape data_ey),
              create_dataset (full_e_path @ ''z'') (shape data_ez),
              set_attr full_e_path ''geometry'' (AStr ''cartesian''),
              set_attr full_e_path ''gridSpacing'' (np_array [1, 1]),
              set_attr full_e_path ''gridGlobalOffset'' (np_array [0, 0]),
              set_attr full_e_path ''gridUnitSI'' (AFloat (float_lit 1)),
              set_attr full_e_path ''dataOrder'' (AStr ''C''),
              set_attr full_e_path ''unitDimension'' (np_array [1, 1, - 3, - 1, 0, 0, 0]),
              (\<lambda>f. add_EDPIC_attr_fields f full_e_path),
              set_attr full_e_path ''time'' (AFloat (float_lit 0)),
              set_attr full_e_path ''timeUnitSI'' (AFloat (float_lit (1 / 10 ^ 9))),
              set_attr (full_e_path @ ''x'') ''position'' (np_array [0, 1 / 2]),
              set_attr (full_e_path @ ''y'') ''position'' (np_array [1 / 2, 0]),
              set_attr (full_e_path @ ''z'') ''position'' (np_array [0, 0]),
              write_all (full_e_path @ ''x'') data_ex,
              write_all (full_e_path @ ''y'') data_ey,
              write_all (full_e_path @ ''z'') data_ez] f)"

definition undefined_name :: "string \<Rightarrow> h5file \<Rightarrow> res" where
  \<comment> \<open>a call through a name that no definition of the module binds\<close>
  "undefined_name name f = Inl (NameError name, f)"

definition write_particles :: "h5file \<Rightarrow> res" where
  "write_particles f =
     (case full_path f ''particlesPath'' [] of
        Inl e \<Rightarrow> Inl (e, f)
      | Inr fullParticlesPath \<Rightarrow>
         seq [create_group (fullParticlesPath @ ''electrons/charge''),
              set_attr (fullParticlesPath @ ''electrons/charge'') ''value''
                (AFloat (float_lit (- 1))),
              set_attr (fullParticlesPath @ ''electrons/charge'') ''unitSI''
                (AFloat (float_lit (160217657 / 10 ^ 27))),
              set_attr (fullParticlesPath @ ''electrons/charge'') ''unitDimension''
                (np_array [0, 0, 1, 1, 0, 0, 0]),
              create_group (fullParticlesPath @ ''electrons/mass''),
              set_attr (fullParticlesPath @ ''electrons/mass'') ''value''
                (AFloat (float_lit 1)),
              set_attr (fullParticlesPath @ ''electrons/mass'') ''unitSI''
                (AFloat (float_lit (910938291 / 10 ^ 39))),
              set_attr (fullParticlesPath @ ''electrons/mass'') ''unitDimension''
                (np_array [0, 1, 0, 0, 0, 0, 0]),
              set_attr (fullParticlesPath @ ''electrons'') ''longName''
                (AStr ''My first electron species''),
              undefined_name ''addEDPICAttrParticles'',
              create_dataset (fullParticlesPath @ ''electrons/weighting'') [128],
              set_attr (fullParticlesPath @ ''electrons/weighting'') ''unitSI''
                (AFloat (float_lit 1)),
              set_attr (fullParticlesPath @ ''electrons/weighting'') ''unitDimension''
                (np_array [0, 0, 0, 0, 0, 0, 0]),
              create_dataset (fullParticlesPath @ ''electrons/position/x'') [128],
              create_dataset (fullParticlesPath @ ''electrons/position/y'') [128],
              create_dataset (fullParticlesPath @ ''electrons/position/z'') [128],
              set_attr (fullParticlesPath @ ''electrons/position'') ''unitSI''
                (AFloat (float_lit (1 / 10 ^ 9))),
              set_attr (fullParticlesPath @ ''electrons/position'') ''unitDimension''
                (np_array [1, 0, 0, 0, 0, 0, 0]),
              create_dataset (fullParticlesPath @ ''electrons/momentum/x'') [128],
              create_dataset (fullParticlesPath @ ''electrons/momentum/y'') [128],
              create_dataset (fullParticlesPath @ ''electrons/momentum/z'') [128],
              set_attr (fullParticlesPath @ ''electrons/momentum'') ''unitSI''
                (AFloat (float_lit (160217657 / 10 ^ 27))),
              set_attr (fullParticlesPath @ ''electrons/momentum'') ''unitDimension''
                (np_array [1, 1, - 1, 0, 0, 0, 0])] f)"

section \<open>Observations\<close>

definition raised :: "res \<Rightarrow> error option" where
  \<comment> \<open>the exception a call ends with, if any\<close>
  "raised r = (case r of Inl (e, g) \<Rightarrow> Some e | Inr g \<Rightarrow> None)"

definition file_after :: "res \<Rightarrow> h5file" where
  \<comment> \<open>the file a call leaves behind, whether it returns or raises\<close>
  "file_after r = (case r of Inl (e, g) \<Rightarrow> g | Inr g \<Rightarrow> g)"

definition vacant :: "h5file \<Rightarrow> string list \<Rightarrow> bool" where
  \<comment> \<open>nothing exists at or below the path, and no dataset is in the way to it\<close>
  "vacant f c \<longleftrightarrow>
     (\<forall>q. nodes f (c @ q) = None) \<and> \<not> list_ex (\<lambda>q. is_dataset (nodes f q)) (ancestors c)"

definition rho_attrs :: "string \<rightharpoonup> attr" where
  \<comment> \<open>the attributes that lines 76 to 98 of the script give the rho dataset\<close>
  "rho_attrs =
     [''geometry'' \<mapsto> AStr ''cylindrical'',
      ''geometryParameters'' \<mapsto> AStr ''m=1; imag=+'',
      ''unitSI'' \<mapsto> AFloat (float_lit 1),
      ''unitDimension'' \<mapsto> np_array [- 3, 0, 1, 1, 0, 0, 0],
      ''time'' \<mapsto> AFloat (float_lit 0),
      ''timeUnitSI'' \<mapsto> AFloat (float_lit (1 / 10 ^ 9)),
      ''gridSpacing'' \<mapsto> np_array [1, 1],
      ''gridGlobalOffset'' \<mapsto> np_array [0, 0],
      ''position'' \<mapsto> np_array [0, 0],
      ''gridUnitSI'' \<mapsto> AFloat (float_lit 1),
      ''dataOrder'' \<mapsto> AStr ''C'',
      ''fieldSolver'' \<mapsto> AStr ''Yee'',
      ''fieldSolverOrder'' \<mapsto> AFloat (float_lit 2),
      ''fieldSmoothing'' \<mapsto> AStr ''none'',
      ''currentSmoothing'' \<mapsto> AStr ''none'',
      ''chargeCorrection'' \<mapsto> AStr ''none'']"

definition e_attrs :: "string \<rightharpoonup> attr" where
  \<comment> \<open>the attributes that lines 131 to 146 of the script give the group E\<close>
  "e_attrs =
     [''geometry'' \<mapsto> AStr ''cartesian'',
      ''gridSpacing'' \<mapsto> np_array [1, 1],
      ''gridGlobalOffset'' \<mapsto> np_array [0, 0],
      ''gridUnitSI'' \<mapsto> AFloat (float_lit 1),
      ''dataOrder'' \<mapsto> AStr ''C'',
      ''unitDimension'' \<mapsto> np_array [1, 1, - 3, - 1, 0, 0, 0],
      ''fieldSolver'' \<mapsto> AStr ''Yee'',
      ''fieldSolverOrder'' \<mapsto> AFloat (float_lit 2),
      ''fieldSmoothing'' \<mapsto> AStr ''none'',
      ''currentSmoothing'' \<mapsto> AStr ''none'',
      ''chargeCorrection'' \<mapsto> AStr ''none'',
      ''time'' \<mapsto> AFloat (float_lit 0),
      ''timeUnitSI'' \<mapsto> AFloat (float_lit (1 / 10 ^ 9))]"

section \<open>Paths and formatting\<close>

declare digits.simps [simp del] bitlen.simps [simp del]

lemma split_on_not_Nil: "split_on c xs \<noteq> []"
  by (induction xs) (auto split: list.splits)

lemma split_on_append_sep:
  "split_on c (a @ c # b) = split_on c a @ split_on c b"
proof (induction a)
  case Nil
  then show ?case by simp
next
  case (Cons x a)
  then show ?case
    using split_on_not_Nil [of c a] by (cases "split_on c a") auto
qed

lemma split_on_word: "c \<notin> set w \<Longrightarrow> split_on c w = [w]"
  by (induction w) auto

lemma path_components_append_sep:
  "path_components (a @ CHR ''/'' # b) = path_components a @ path_components b"
  by (simp add: path_components_def split_on_append_sep)

lemma path_components_word:
  "CHR ''/'' \<notin> set w \<Longrightarrow> w \<noteq> [] \<Longrightarrow> w \<noteq> ''.'' \<Longrightarrow> path_components w = [w]"
  by (simp add: path_components_def split_on_word)

lemma path_components_Nil: "path_components [] = []"
  by (simp add: path_components_def)

lemma path_nonempty: "path_components p = c \<Longrightarrow> c \<noteq> [] \<Longrightarrow> p \<noteq> []"
  using path_components_Nil by auto

lemma digit_in: "d < 10 \<Longrightarrow> digit d \<in> set ''0123456789''"
  unfolding digit_def by (rule nth_mem) simp

lemma digits_chars: "set (digits n) \<subseteq> set ''0123456789''"
proof (induction n rule: digits.induct)
  case (1 n)
  show ?case
  proof (cases "n < 10")
    case True
    then show ?thesis using digit_in [of n] by (subst digits.simps) simp
  next
    case False
    have "n mod 10 < 10" by simp
    then have "digit (n mod 10) \<in> set ''0123456789''" by (rule digit_in)
    with False 1 show ?thesis by (subst digits.simps) simp
  qed
qed

lemma digits_not_Nil: "digits n \<noteq> []"
  by (subst digits.simps) simp

lemma fmt_d_chars: "set (fmt_d i) \<subseteq> insert CHR ''-'' (set ''0123456789'')"
proof (cases "i < 0")
  case True
  then have "fmt_d i = CHR ''-'' # digits (nat (- i))" by (simp add: fmt_d_def)
  then show ?thesis using digits_chars [of "nat (- i)"] by (simp add: subset_insertI2)
next
  case False
  then have "fmt_d i = digits (nat i)" by (simp add: fmt_d_def)
  then show ?thesis using digits_chars [of "nat i"] by (simp add: subset_insertI2)
qed

lemma fmt_d_word:
  "CHR ''/'' \<notin> set (fmt_d i)" "fmt_d i \<noteq> []" "fmt_d i \<noteq> ''.''"
proof -
  show "CHR ''/'' \<notin> set (fmt_d i)" using fmt_d_chars [of i] by (simp add: subset_iff) blast
  show "fmt_d i \<noteq> []" by (simp add: fmt_d_def digits_not_Nil)
  have "CHR ''.'' \<notin> set (fmt_d i)" using fmt_d_chars [of i] by (simp add: subset_iff) blast
  then show "fmt_d i \<noteq> ''.''" by auto
qed

lemma path_components_fmt_d: "path_components (fmt_d i) = [fmt_d i]"
  by (rule path_components_word) (rule fmt_d_word)+

lemma base_path_components:
  "path_components (''/data/'' @ fmt_d i @ ''/'' @ sub) =
     ''data'' # fmt_d i # path_components sub"
proof -
  have "''/data/'' @ fmt_d i @ ''/'' @ sub =
        [] @ CHR ''/'' # ''data'' @ CHR ''/'' # fmt_d i @ CHR ''/'' # sub"
    by simp
  then have "path_components (''/data/'' @ fmt_d i @ ''/'' @ sub) =
      path_components [] @ path_components ''data'' @ path_components (fmt_d i)
        @ path_components sub"
    by (simp only: path_components_append_sep)
  moreover have "path_components ''data'' = [''data'']"
    by (simp add: path_components_def)
  ultimately show ?thesis
    by (simp add: path_components_Nil path_components_fmt_d)
qed

lemma fmt_d_examples: "fmt_d 0 = ''0''" "fmt_d 1 = ''1''" "fmt_d 42 = ''42''" "fmt_d (- 7) = ''-7''"
  by code_simp+

section \<open>The root attributes\<close>

text \<open>
  Claim C8. After \<open>setup_root_attr\<close> has run with iteration \<open>i\<close>, the root attributes
  hold version \<^verbatim>\<open>1.0.0\<close>, the base path \<^verbatim>\<open>/data/%d/\<close> formatted with \<open>i\<close>, the fields and
  particles paths, the iteration encoding and format, and the author, software, date
  and comment strings; nothing else in the file is touched. The date is the formatted
  time of the call.
\<close>

theorem setup_root_attr_values:
  "root_attrs (setup_root_attr f i now) ''version'' = Some (AStr ''1.0.0'') \<and>
   root_attrs (setup_root_attr f i now) ''basePath'' = Some (AStr (''/data/'' @ fmt_d i @ ''/'')) \<and>
   root_attrs (setup_root_attr f i now) ''fieldsPath'' = Some (AStr ''fields/'') \<and>
   root_attrs (setup_root_attr f i now) ''particlesPath'' = Some (AStr ''particles/'') \<and>
   root_attrs (setup_root_attr f i now) ''iterationEncoding'' = Some (AStr ''fileBased'') \<and>
   root_attrs (setup_root_attr f i now) ''iterationFormat'' = Some (AStr ''/data/%T/'') \<and>
   root_attrs (setup_root_attr f i now) ''author'' = Some (AStr ''Axel Huebl <a.huebl@hzdr.de>'') \<and>
   root_attrs (setup_root_attr f i now) ''software'' = Some (AStr ''OpenPMD Example Script'') \<and>
   root_attrs (setup_root_attr f i now) ''date'' = Some (AStr now) \<and>
   root_attrs (setup_root_attr f i now) ''comment'' =
     Some (AStr ''This is a dummy file for test purposes.'') \<and>
   nodes (setup_root_attr f i now) = nodes f \<and>
   fmt_d 0 = ''0'' \<and> fmt_d 42 = ''42'' \<and> fmt_d (- 7) = ''-7''"
  by (simp add: setup_root_attr_def fmt_d_examples)

text \<open>
  Claim C9, as stated, fails: the base path is formatted from the iteration argument and
  the date is the time of the call, so two calls that differ in either write different
  values.
\<close>

theorem setup_root_attr_varies:
  "root_attrs (setup_root_attr h5_File_w 0 ''2015-06-01 12:00:00 +0200'') ''basePath''
     \<noteq> root_attrs (setup_root_attr h5_File_w 1 ''2015-06-01 12:00:00 +0200'') ''basePath''
   \<and> root_attrs (setup_root_attr h5_File_w 0 ''2015-06-01 12:00:00 +0200'') ''date''
     \<noteq> root_attrs (setup_root_attr h5_File_w 0 ''2015-06-01 12:00:01 +0200'') ''date''"
  by (simp add: setup_root_attr_def fmt_d_examples)

text \<open>
  Claim C9, amended. Every root attribute other than \<^verbatim>\<open>basePath\<close> and \<^verbatim>\<open>date\<close> has the same
  value after any two calls on the same file, whatever the iteration arguments and the
  times of the calls.
\<close>

theorem setup_root_attr_literal:
  "k \<noteq> ''basePath'' \<and> k \<noteq> ''date'' \<longrightarrow>
     root_attrs (setup_root_attr f i t) k = root_attrs (setup_root_attr f j t') k"
  by (simp add: setup_root_attr_def)

theorem setup_root_attr_literal_witness:
  "''version'' \<noteq> ''basePath'' \<and> ''version'' \<noteq> ''date'' \<and>
   root_attrs (setup_root_attr h5_File_w 0 ''2015-06-01 12:00:00 +0200'') ''version''
     = root_attrs (setup_root_attr h5_File_w 1 ''2016-01-01 00:00:00 +0000'') ''version''"
  using setup_root_attr_literal [of "''version''" h5_File_w 0 "''2015-06-01 12:00:00 +0200''" 1
      "''2016-01-01 00:00:00 +0000''"]
  by simp

section \<open>Properties of the file operations\<close>

lemma add_groups_apply:
  "add_groups qs m k = (if k \<in> set qs \<and> m k = None then Some (Group Map.empty) else m k)"
  by (induction qs arbitrary: m) auto

lemma ancestors_shorter: "q \<in> set (ancestors c) \<Longrightarrow> length q < length c"
  by (auto simp: ancestors_def)

lemma create_node_ok:
  assumes "path_components p = c" "c \<noteq> []" "vacant f c"
  shows "create_node p nd f =
           Inr (f\<lparr>nodes := (add_groups (ancestors c) (nodes f))(c \<mapsto> nd)\<rparr>)"
proof -
  from assms(3) have "nodes f (c @ []) = None" unfolding vacant_def by blast
  then have "nodes f c = None" by simp
  moreover from assms(3) have "\<not> list_ex (\<lambda>q. is_dataset (nodes f q)) (ancestors c)"
    by (simp add: vacant_def)
  ultimately show ?thesis using assms(1,2) by (simp add: create_node_def)
qed

lemma vacant_parent:
  assumes "vacant f c"
  shows "\<not> (1 < length c \<and> is_dataset (nodes f (butlast c)))"
proof
  assume a: "1 < length c \<and> is_dataset (nodes f (butlast c))"
  then have "1 \<le> length c - 1" "length c - 1 < length c" by arith+
  then have "length c - 1 \<in> set [1..<length c]" by simp
  then have "take (length c - 1) c \<in> set (ancestors c)"
    by (auto simp: ancestors_def)
  then have "butlast c \<in> set (ancestors c)"
    by (simp add: butlast_conv_take)
  with assms have "\<not> is_dataset (nodes f (butlast c))"
    by (auto simp: vacant_def list_ex_iff)
  with a show False by simp
qed

lemma create_dataset_ok:
  assumes "path_components p = c" "c \<noteq> []" "vacant f c"
  shows "create_dataset p shp f =
           Inr (f\<lparr>nodes := (add_groups (ancestors c) (nodes f))
                  (c \<mapsto> Dataset shp (replicate (prod_list shp) (Fin 0)) Map.empty)\<rparr>)"
  using vacant_parent [OF assms(3)] create_node_ok [OF assms]
  by (simp add: create_dataset_def assms(1))

lemma set_attr_dataset:
  assumes "path_components p = c" "c \<noteq> []" "nodes f c = Some (Dataset s d a)"
  shows "set_attr p n v f = Inr (f\<lparr>nodes := (nodes f)(c \<mapsto> Dataset s d (a(n \<mapsto> v)))\<rparr>)"
  using assms path_nonempty [OF assms(1,2)] by (cases c) (simp_all add: set_attr_def)

lemma set_attr_group:
  assumes "path_components p = c" "c \<noteq> []" "nodes f c = Some (Group a)"
  shows "set_attr p n v f = Inr (f\<lparr>nodes := (nodes f)(c \<mapsto> Group (a(n \<mapsto> v)))\<rparr>)"
  using assms path_nonempty [OF assms(1,2)] by (cases c) (simp_all add: set_attr_def)

lemma write_layer_ok:
  assumes "path_components p = c" "c \<noteq> []" "nodes f c = Some (Dataset [n, h, w] d a)"
    "k < n" "shape arr = [h, w]"
  shows "write_layer p k arr f =
           Inr (f\<lparr>nodes := (nodes f)(c \<mapsto> Dataset [n, h, w]
                  (take (k * (h * w)) d @ map f4 (elems arr) @ drop ((k + 1) * (h * w)) d) a)\<rparr>)"
  using assms path_nonempty [OF assms(1,2)] by (simp add: write_layer_def)

text \<open>The attribute statements of the rho writer, on a dataset that exists.\<close>

lemma rho_attr_statements:
  assumes pc: "path_components p = c" "c \<noteq> []"
    and nd: "nodes g c = Some (Dataset s d Map.empty)"
  shows "seq [set_attr p ''geometry'' (AStr ''cylindrical''),
              set_attr p ''geometryParameters'' (AStr ''m=1; imag=+''),
              set_attr p ''unitSI'' (AFloat (float_lit 1)),
              set_attr p ''unitDimension'' (np_array [- 3, 0, 1, 1, 0, 0, 0]),
              set_attr p ''time'' (AFloat (float_lit 0)),
              set_attr p ''timeUnitSI'' (AFloat (float_lit (1 / 10 ^ 9))),
              set_attr p ''gridSpacing'' (np_array [1, 1]),
              set_attr p ''gridGlobalOffset'' (np_array [0, 0]),
              set_attr p ''position'' (np_array [0, 0]),
              set_attr p ''gridUnitSI'' (AFloat (float_lit 1)),
              set_attr p ''dataOrder'' (AStr ''C''),
              (\<lambda>f. add_EDPIC_attr_fields f p)] g
         = Inr (g\<lparr>nodes := (nodes g)(c \<mapsto> Dataset s d rho_attrs)\<rparr>)"
  using pc nd path_nonempty [OF pc]
  by (cases c) (simp_all add: set_attr_def add_EDPIC_attr_fields_def rho_attrs_def)

lemma seq_append: "seq (xs @ ys) f = (case seq xs f of Inl e \<Rightarrow> Inl e | Inr f' \<Rightarrow> seq ys f')"
  by (induction xs arbitrary: f) (auto split: sum.splits)

lemma rho_path:
  assumes "root_attrs f ''basePath'' = Some (AStr (''/data/'' @ fmt_d i @ ''/''))"
    and "root_attrs f ''fieldsPath'' = Some (AStr ''fields/'')"
  shows "full_path f ''fieldsPath'' ''rho'' = Inr (''/data/'' @ fmt_d i @ ''/'' @ ''fields/rho'')"
  using assms by (simp add: full_path_def)

lemma rho_components:
  "path_components (''/data/'' @ fmt_d i @ ''/'' @ ''fields/rho'') =
     [''data'', fmt_d i, ''fields'', ''rho'']"
proof -
  have "path_components ''fields/rho'' = [''fields'', ''rho'']"
    by (simp add: path_components_def)
  then show ?thesis by (simp only: base_path_components)
qed

lemma write_rho_run:
  assumes base: "root_attrs f ''basePath'' = Some (AStr (''/data/'' @ fmt_d i @ ''/''))"
    and flds: "root_attrs f ''fieldsPath'' = Some (AStr ''fields/'')"
    and vac: "vacant f [''data'', fmt_d i, ''fields'', ''rho'']"
  shows "shape mode0 \<noteq> shape mode1 \<Longrightarrow>
      write_rho_cylindrical f mode0 mode1 =
        Inl (ValueError ''`mode0` and `mode1` should have the same shape'',
             f\<lparr>nodes := (add_groups (ancestors [''data'', fmt_d i, ''fields'', ''rho'']) (nodes f))
                ([''data'', fmt_d i, ''fields'', ''rho''] \<mapsto>
                   Dataset [3, nrows mode0, ncols mode0]
                     (replicate (3 * (nrows mode0 * ncols mode0)) (Fin 0)) rho_attrs)\<rparr>)"
    and "shape mode0 = shape mode1 \<Longrightarrow> wf_array mode0 \<Longrightarrow> wf_array mode1 \<Longrightarrow>
      write_rho_cylindrical f mode0 mode1 =
        Inr (f\<lparr>nodes := (add_groups (ancestors [''data'', fmt_d i, ''fields'', ''rho'']) (nodes f))
                ([''data'', fmt_d i, ''fields'', ''rho''] \<mapsto>
                   Dataset [3, nrows mode0, ncols mode0]
                     (map f4 (elems mode0) @ map f4 (map fst (elems mode1))
                        @ map f4 (map snd (elems mode1)))
                     rho_attrs)\<rparr>)"
proof -
  define p where "p = ''/data/'' @ fmt_d i @ ''/'' @ ''fields/rho''"
  define c where "c = [''data'', fmt_d i, ''fields'', ''rho'']"
  define h where "h = nrows mode0"
  define w where "w = ncols mode0"
  define d0 where "d0 = replicate (3 * (h * w)) (Fin 0)"
  have fp: "full_path f ''fieldsPath'' ''rho'' = Inr p"
    unfolding p_def using base flds by (rule rho_path)
  have pc: "path_components p = c" "c \<noteq> []"
    unfolding p_def c_def by (simp_all only: rho_components) simp
  have vac': "vacant f c" using vac by (simp only: c_def)
  define f1 where "f1 = f\<lparr>nodes := (add_groups (ancestors c) (nodes f))
      (c \<mapsto> Dataset [3, h, w] d0 Map.empty)\<rparr>"
  define f2 where "f2 = f\<lparr>nodes := (add_groups (ancestors c) (nodes f))
      (c \<mapsto> Dataset [3, h, w] d0 rho_attrs)\<rparr>"
  have s1: "create_dataset p [3, h, w] f = Inr f1"
    unfolding f1_def d0_def
    using create_dataset_ok [OF pc vac'] by simp
  have s0: "seq [create_dataset p [3, h, w]] f = Inr f1"
    by (simp add: s1)
  have "nodes f1 c = Some (Dataset [3, h, w] d0 Map.empty)"
    by (simp add: f1_def)
  from rho_attr_statements [OF pc this]
  have s2: "seq [set_attr p ''geometry'' (AStr ''cylindrical''),
              set_attr p ''geometryParameters'' (AStr ''m=1; imag=+''),
              set_attr p ''unitSI'' (AFloat (float_lit 1)),
              set_attr p ''unitDimension'' (np_array [- 3, 0, 1, 1, 0, 0, 0]),
              set_attr p ''time'' (AFloat (float_lit 0)),
              set_attr p ''timeUnitSI'' (AFloat (float_lit (1 / 10 ^ 9))),
              set_attr p ''gridSpacing'' (np_array [1, 1]),
              set_attr p ''gridGlobalOffset'' (np_array [0, 0]),
              set_attr p ''position'' (np_array [0, 0]),
              set_attr p ''gridUnitSI'' (AFloat (float_lit 1)),
              set_attr p ''dataOrder'' (AStr ''C''),
              (\<lambda>f. add_EDPIC_attr_fields f p)] f1 = Inr f2"
    by (simp add: f1_def f2_def)
  have n2: "nodes f2 c = Some (Dataset [3, h, w] d0 rho_attrs)"
    by (simp add: f2_def)
  have run: "write_rho_cylindrical f mode0 mode1 =
     seq [shape_check mode0 mode1, write_layer p 0 mode0,
          write_layer p 1 (real_part mode1), write_layer p 2 (imag_part mode1)] f2"
  proof -
    have "write_rho_cylindrical f mode0 mode1 =
     seq ([create_dataset p [3, h, w]] @
          [set_attr p ''geometry'' (AStr ''cylindrical''),
              set_attr p ''geometryParameters'' (AStr ''m=1; imag=+''),
              set_attr p ''unitSI'' (AFloat (float_lit 1)),
              set_attr p ''unitDimension'' (np_array [- 3, 0, 1, 1, 0, 0, 0]),
              set_attr p ''time'' (AFloat (float_lit 0)),
              set_attr p ''timeUnitSI'' (AFloat (float_lit (1 / 10 ^ 9))),
              set_attr p ''gridSpacing'' (np_array [1, 1]),
              set_attr p ''gridGlobalOffset'' (np_array [0, 0]),
              set_attr p ''position'' (np_array [0, 0]),
              set_attr p ''gridUnitSI'' (AFloat (float_lit 1)),
              set_attr p ''dataOrder'' (AStr ''C''),
              (\<lambda>f. add_EDPIC_attr_fields f p)] @
          [shape_check mode0 mode1, write_layer p 0 mode0,
                 write_layer p 1 (real_part mode1), write_layer p 2 (imag_part mode1)]) f"
      unfolding write_rho_cylindrical_def fp h_def w_def by simp
    also have "\<dots> = seq [shape_check mode0 mode1, write_layer p 0 mode0,
          write_layer p 1 (real_part mode1), write_layer p 2 (imag_part mode1)] f2"
      by (simp only: seq_append s0 s2 sum.case)
    finally show ?thesis .
  qed
  {
    assume "shape mode0 \<noteq> shape mode1"
    then have "write_rho_cylindrical f mode0 mode1 =
        Inl (ValueError ''`mode0` and `mode1` should have the same shape'', f2)"
      unfolding run by (simp add: shape_check_def)
    then show "write_rho_cylindrical f mode0 mode1 =
        Inl (ValueError ''`mode0` and `mode1` should have the same shape'',
             f\<lparr>nodes := (add_groups (ancestors [''data'', fmt_d i, ''fields'', ''rho'']) (nodes f))
                ([''data'', fmt_d i, ''fields'', ''rho''] \<mapsto>
                   Dataset [3, nrows mode0, ncols mode0]
                     (replicate (3 * (nrows mode0 * ncols mode0)) (Fin 0)) rho_attrs)\<rparr>)"
      unfolding f2_def c_def h_def w_def d0_def .
  }
  {
    assume eq: "shape mode0 = shape mode1" and wf: "wf_array mode0" "wf_array mode1"
    have sh: "shape mode0 = [h, w]" "shape (real_part mode1) = [h, w]"
      "shape (imag_part mode1) = [h, w]"
      using eq by (simp_all add: shape_def h_def w_def real_part_def imag_part_def)
    have len: "length (elems mode0) = h * w" "length (elems mode1) = h * w"
      using eq wf by (simp_all add: shape_def h_def w_def wf_array_def)
    define A where "A = map f4 (elems mode0)"
    define B where "B = map f4 (map fst (elems mode1))"
    define C where "C = map f4 (map snd (elems mode1))"
    have lenA: "length A = h * w" and lenB: "length B = h * w" and lenC: "length C = h * w"
      using len by (simp_all add: A_def B_def C_def)
    define g where "g = (\<lambda>d. f\<lparr>nodes := (add_groups (ancestors c) (nodes f))
        (c \<mapsto> Dataset [3, h, w] d rho_attrs)\<rparr>)"
    have ng: "nodes (g d) c = Some (Dataset [3, h, w] d rho_attrs)" for d
      by (simp add: g_def)
    have gg: "(g d)\<lparr>nodes := (nodes (g d))(c \<mapsto> Dataset [3, h, w] d' rho_attrs)\<rparr> = g d'"
      for d d'
      by (simp add: g_def)
    have f2g: "f2 = g d0" by (simp add: f2_def g_def)
    have w0: "write_layer p 0 mode0 (g d0) = Inr (g (A @ replicate (2 * (h * w)) (Fin 0)))"
      using write_layer_ok [OF pc ng _ sh(1), of 0 d0] lenA
      by (simp add: gg d0_def A_def)
    have w1: "write_layer p 1 (real_part mode1) (g (A @ replicate (2 * (h * w)) (Fin 0)))
        = Inr (g (A @ B @ replicate (h * w) (Fin 0)))"
      using write_layer_ok [OF pc ng _ sh(2), of 1 "A @ replicate (2 * (h * w)) (Fin 0)"]
        lenA lenB
      by (simp add: gg B_def real_part_def)
    have w2: "write_layer p 2 (imag_part mode1) (g (A @ B @ replicate (h * w) (Fin 0)))
        = Inr (g (A @ B @ C))"
      using write_layer_ok [OF pc ng _ sh(3), of 2 "A @ B @ replicate (h * w) (Fin 0)"]
        lenA lenB lenC
      by (simp add: gg C_def imag_part_def)
    have sc: "shape_check mode0 mode1 f2 = Inr (g d0)"
      using eq by (simp add: shape_check_def f2g)
    have "write_rho_cylindrical f mode0 mode1 = Inr (g (A @ B @ C))"
      unfolding run by (simp only: seq.simps sc w0 w1 w2 sum.case)
    then have "write_rho_cylindrical f mode0 mode1 =
        Inr (f\<lparr>nodes := (add_groups (ancestors c) (nodes f))(c \<mapsto>
                   Dataset [3, h, w]
                     (map f4 (elems mode0) @ map f4 (map fst (elems mode1))
                        @ map f4 (map snd (elems mode1))) rho_attrs)\<rparr>)"
      by (simp only: g_def A_def B_def C_def)
    then show "write_rho_cylindrical f mode0 mode1 =
        Inr (f\<lparr>nodes := (add_groups (ancestors [''data'', fmt_d i, ''fields'', ''rho'']) (nodes f))
                ([''data'', fmt_d i, ''fields'', ''rho''] \<mapsto>
                   Dataset [3, nrows mode0, ncols mode0]
                     (map f4 (elems mode0) @ map f4 (map fst (elems mode1))
                        @ map f4 (map snd (elems mode1)))
                     rho_attrs)\<rparr>)"
      unfolding c_def h_def w_def .
  }
qed

section \<open>The scalar-field writer\<close>

lemma float_lit_small:
  "float_lit 0 = Fin 0" "float_lit 1 = Fin 1" "float_lit (- 3) = Fin (- 3)"
  "float_lit (- 1) = Fin (- 1)" "float_lit 2 = Fin 2" "float_lit 3 = Fin 3"
  "float_lit (1 / 2) = Fin (1 / 2)"
  by code_simp+

lemma f4_zero: "f4 (Fin 0) = Fin 0"
  by (simp add: round_bin_def flt_max_def)

declare f4.simps [simp del]

lemma vacant_empty: "nodes f = Map.empty \<Longrightarrow> vacant f c"
  by (simp add: vacant_def list_ex_iff)

lemma setup_root_attr_ready:
  "root_attrs (setup_root_attr f i t) ''basePath'' = Some (AStr (''/data/'' @ fmt_d i @ ''/''))"
  "root_attrs (setup_root_attr f i t) ''fieldsPath'' = Some (AStr ''fields/'')"
  "root_attrs (setup_root_attr f i t) ''particlesPath'' = Some (AStr ''particles/'')"
  "vacant (setup_root_attr h5_File_w i t) c"
  by (simp_all add: setup_root_attr_def vacant_empty h5_File_w_def)

text \<open>
  Claim C1. On a file whose root attributes \<open>setup_root_attr\<close> has written and in which
  nothing exists yet at the rho path, for every pair of two-dimensional arrays the call
  raises the shape-mismatch \<^verbatim>\<open>ValueError\<close> if and only if the two shapes differ, and it
  completes without an exception when they are equal.
\<close>

theorem write_rho_shape_check:
  assumes "root_attrs f ''basePath'' = Some (AStr (''/data/'' @ fmt_d i @ ''/''))"
    and "root_attrs f ''fieldsPath'' = Some (AStr ''fields/'')"
    and "vacant f [''data'', fmt_d i, ''fields'', ''rho'']"
    and "wf_array mode0" and "wf_array mode1"
  shows "(raised (write_rho_cylindrical f mode0 mode1)
            = Some (ValueError ''`mode0` and `mode1` should have the same shape'')
          \<longleftrightarrow> shape mode0 \<noteq> shape mode1)
       \<and> (shape mode0 = shape mode1 \<longrightarrow> raised (write_rho_cylindrical f mode0 mode1) = None)"
proof (cases "shape mode0 = shape mode1")
  case True
  from write_rho_run(2) [OF assms(1-3) True assms(4,5)] True
  show ?thesis by (simp add: raised_def)
next
  case False
  from write_rho_run(1) [OF assms(1-3) False] False
  show ?thesis by (simp add: raised_def)
qed

text \<open>The hypotheses of C1 hold on a new file, for a mismatched and for a matching pair.\<close>

theorem write_rho_shape_check_witness:
  "wf_array \<lparr>nrows = 1, ncols = 1, elems = [Fin 0]\<rparr> \<and>
   wf_array \<lparr>nrows = 1, ncols = 2, elems = [(Fin 0, Fin 0), (Fin 0, Fin 0)]\<rparr> \<and>
   vacant (setup_root_attr h5_File_w 0 ''2015-06-01 12:00:00 +0200'')
     [''data'', fmt_d 0, ''fields'', ''rho''] \<and>
   raised (write_rho_cylindrical (setup_root_attr h5_File_w 0 ''2015-06-01 12:00:00 +0200'')
      \<lparr>nrows = 1, ncols = 1, elems = [Fin 0]\<rparr>
      \<lparr>nrows = 1, ncols = 2, elems = [(Fin 0, Fin 0), (Fin 0, Fin 0)]\<rparr>)
     = Some (ValueError ''`mode0` and `mode1` should have the same shape'') \<and>
   raised (write_rho_cylindrical (setup_root_attr h5_File_w 0 ''2015-06-01 12:00:00 +0200'')
      \<lparr>nrows = 1, ncols = 1, elems = [Fin 0]\<rparr>
      \<lparr>nrows = 1, ncols = 1, elems = [(Fin 0, Fin 0)]\<rparr>) = None"
  using write_rho_shape_check [of "setup_root_attr h5_File_w 0 ''2015-06-01 12:00:00 +0200''" 0
      "\<lparr>nrows = 1, ncols = 1, elems = [Fin 0]\<rparr>"
      "\<lparr>nrows = 1, ncols = 2, elems = [(Fin 0, Fin 0), (Fin 0, Fin 0)]\<rparr>"]
    write_rho_shape_check [of "setup_root_attr h5_File_w 0 ''2015-06-01 12:00:00 +0200''" 0
      "\<lparr>nrows = 1, ncols = 1, elems = [Fin 0]\<rparr>"
      "\<lparr>nrows = 1, ncols = 1, elems = [(Fin 0, Fin 0)]\<rparr>"]
  by (simp add: setup_root_attr_ready wf_array_def shape_def)

text \<open>
  Claim C2, as stated, fails: the dataset is created and its attributes are written
  (lines 75 to 98) before the shapes are compared (line 101). After the failed call on a
  new file, with a 1 by 1 and a 1 by 2 array, the rho dataset exists, with its
  attributes; it did not exist before.
\<close>

theorem write_rho_partial_write:
  "raised (write_rho_cylindrical (setup_root_attr h5_File_w 0 ''2015-06-01 12:00:00 +0200'')
      \<lparr>nrows = 1, ncols = 1, elems = [Fin 1]\<rparr>
      \<lparr>nrows = 1, ncols = 2, elems = [(Fin 0, Fin 0), (Fin 0, Fin 0)]\<rparr>)
     = Some (ValueError ''`mode0` and `mode1` should have the same shape'') \<and>
   nodes (file_after (write_rho_cylindrical
      (setup_root_attr h5_File_w 0 ''2015-06-01 12:00:00 +0200'')
      \<lparr>nrows = 1, ncols = 1, elems = [Fin 1]\<rparr>
      \<lparr>nrows = 1, ncols = 2, elems = [(Fin 0, Fin 0), (Fin 0, Fin 0)]\<rparr>))
     [''data'', ''0'', ''fields'', ''rho'']
     = Some (Dataset [3, 1, 1] [Fin 0, Fin 0, Fin 0] rho_attrs) \<and>
   rho_attrs ''geometry'' = Some (AStr ''cylindrical'') \<and>
   nodes (setup_root_attr h5_File_w 0 ''2015-06-01 12:00:00 +0200'')
     [''data'', ''0'', ''fields'', ''rho''] = None"
proof -
  have "shape \<lparr>nrows = 1, ncols = 1, elems = [Fin 1]\<rparr>
      \<noteq> shape \<lparr>nrows = 1, ncols = 2, elems = [(Fin 0, Fin 0), (Fin 0, Fin 0)]\<rparr>"
    by (simp add: shape_def)
  from write_rho_run(1) [OF setup_root_attr_ready(1) [of h5_File_w 0 "''2015-06-01 12:00:00 +0200''"]
      setup_root_attr_ready(2) setup_root_attr_ready(4) this]
  show ?thesis
    by (simp add: raised_def file_after_def fmt_d_examples rho_attrs_def
        setup_root_attr_def h5_File_w_def numeral_3_eq_3)
qed

text \<open>
  Claim C2, amended. For every pair of two-dimensional arrays of different shapes the
  call fails with the shape-mismatch error after a partial write: the rho dataset exists,
  with the shape 3 by H by W taken from \<open>mode0\<close>, reads as zeros and carries all of its
  attributes; the groups on the way to it that were missing exist and are empty; no
  element is written, and nothing else in the file has changed.
\<close>

theorem write_rho_mismatch_state:
  assumes "root_attrs f ''basePath'' = Some (AStr (''/data/'' @ fmt_d i @ ''/''))"
    and "root_attrs f ''fieldsPath'' = Some (AStr ''fields/'')"
    and "vacant f [''data'', fmt_d i, ''fields'', ''rho'']"
    and "shape mode0 \<noteq> shape mode1"
  shows "raised (write_rho_cylindrical f mode0 mode1)
        = Some (ValueError ''`mode0` and `mode1` should have the same shape'') \<and>
    nodes (file_after (write_rho_cylindrical f mode0 mode1))
        [''data'', fmt_d i, ''fields'', ''rho'']
      = Some (Dataset [3, nrows mode0, ncols mode0]
                (replicate (3 * (nrows mode0 * ncols mode0)) (Fin 0)) rho_attrs) \<and>
    root_attrs (file_after (write_rho_cylindrical f mode0 mode1)) = root_attrs f \<and>
    (\<forall>k. k \<noteq> [''data'', fmt_d i, ''fields'', ''rho''] \<longrightarrow>
       nodes (file_after (write_rho_cylindrical f mode0 mode1)) k =
         (if k \<in> set (ancestors [''data'', fmt_d i, ''fields'', ''rho'']) \<and> nodes f k = None
          then Some (Group Map.empty) else nodes f k))"
  unfolding write_rho_run(1) [OF assms]
  by (simp add: raised_def file_after_def add_groups_apply)

text \<open>The hypotheses of the amended C2 hold for a 1 by 1 and a 1 by 2 array on a new file.\<close>

theorem write_rho_mismatch_state_witness:
  "vacant (setup_root_attr h5_File_w 0 ''2015-06-01 12:00:00 +0200'')
     [''data'', fmt_d 0, ''fields'', ''rho''] \<and>
   shape \<lparr>nrows = 1, ncols = 1, elems = [Fin 1]\<rparr>
     \<noteq> shape \<lparr>nrows = 1, ncols = 2, elems = [(Fin 0, Fin 0), (Fin 0, Fin 0)]\<rparr> \<and>
   raised (write_rho_cylindrical (setup_root_attr h5_File_w 0 ''2015-06-01 12:00:00 +0200'')
      \<lparr>nrows = 1, ncols = 1, elems = [Fin 1]\<rparr>
      \<lparr>nrows = 1, ncols = 2, elems = [(Fin 0, Fin 0), (Fin 0, Fin 0)]\<rparr>)
     = Some (ValueError ''`mode0` and `mode1` should have the same shape'')"
  using write_rho_mismatch_state [of "setup_root_attr h5_File_w 0 ''2015-06-01 12:00:00 +0200''" 0
      "\<lparr>nrows = 1, ncols = 1, elems = [Fin 1]\<rparr>"
      "\<lparr>nrows = 1, ncols = 2, elems = [(Fin 0, Fin 0), (Fin 0, Fin 0)]\<rparr>"]
  by (simp add: setup_root_attr_ready shape_def)

text \<open>
  Claim C3, as stated, fails: the dataset has dtype \<^verbatim>\<open>'f4'\<close>, so a binary64 element that
  is not a binary32 value is stored rounded. The binary64 value of \<^verbatim>\<open>0.1\<close> is read back as
  a different number.
\<close>

theorem write_rho_rounds:
  "read_layer (file_after (write_rho_cylindrical
        (setup_root_attr h5_File_w 0 ''2015-06-01 12:00:00 +0200'')
        \<lparr>nrows = 1, ncols = 1, elems = [float_lit (1 / 10)]\<rparr>
        \<lparr>nrows = 1, ncols = 1, elems = [(Fin 0, Fin 0)]\<rparr>))
      [''data'', ''0'', ''fields'', ''rho''] 0
     = Some [Fin (13421773 / 134217728)] \<and>
   elems \<lparr>nrows = 1, ncols = 1, elems = [float_lit (1 / 10)]\<rparr>
     = [Fin (3602879701896397 / 36028797018963968)] \<and>
   Fin (13421773 / 134217728) \<noteq> Fin (3602879701896397 / 36028797018963968)"
proof -
  have lit: "float_lit (1 / 10) = Fin (3602879701896397 / 36028797018963968)"
    by code_simp
  have rnd: "f4 (Fin (3602879701896397 / 36028797018963968)) = Fin (13421773 / 134217728)"
    by code_simp
  have "shape \<lparr>nrows = 1, ncols = 1, elems = [float_lit (1 / 10)]\<rparr>
      = shape \<lparr>nrows = 1, ncols = 1, elems = [(Fin 0, Fin 0)]\<rparr>"
    "wf_array \<lparr>nrows = 1, ncols = 1, elems = [float_lit (1 / 10)]\<rparr>"
    "wf_array \<lparr>nrows = 1, ncols = 1, elems = [(Fin 0, Fin 0)]\<rparr>"
    by (simp_all add: shape_def wf_array_def)
  from write_rho_run(2) [OF setup_root_attr_ready(1) [of h5_File_w 0 "''2015-06-01 12:00:00 +0200''"]
      setup_root_attr_ready(2) setup_root_attr_ready(4) this]
  show ?thesis
    by (simp add: file_after_def read_layer_def fmt_d_examples lit rnd f4_zero)
qed

text \<open>
  Claim C3, amended. For every pair of equal-shaped two-dimensional arrays the call
  completes, and layer 0 of the dataset holds the elements of \<open>mode0\<close>, layer 1 the real
  parts and layer 2 the imaginary parts of the elements of \<open>mode1\<close>, element for element,
  each converted to single precision; the layers equal the inputs themselves whenever
  every input element is a single-precision value.
\<close>

theorem write_rho_layers:
  assumes "root_attrs f ''basePath'' = Some (AStr (''/data/'' @ fmt_d i @ ''/''))"
    and "root_attrs f ''fieldsPath'' = Some (AStr ''fields/'')"
    and "vacant f [''data'', fmt_d i, ''fields'', ''rho'']"
    and "wf_array mode0" and "wf_array mode1"
    and "shape mode0 = shape mode1"
  shows "raised (write_rho_cylindrical f mode0 mode1) = None \<and>
    read_layer (file_after (write_rho_cylindrical f mode0 mode1))
        [''data'', fmt_d i, ''fields'', ''rho''] 0 = Some (map f4 (elems mode0)) \<and>
    read_layer (file_after (write_rho_cylindrical f mode0 mode1))
        [''data'', fmt_d i, ''fields'', ''rho''] 1 = Some (map f4 (map fst (elems mode1))) \<and>
    read_layer (file_after (write_rho_cylindrical f mode0 mode1))
        [''data'', fmt_d i, ''fields'', ''rho''] 2 = Some (map f4 (map snd (elems mode1))) \<and>
    ((\<forall>x \<in> set (elems mode0). f4 x = x) \<longrightarrow>
       read_layer (file_after (write_rho_cylindrical f mode0 mode1))
         [''data'', fmt_d i, ''fields'', ''rho''] 0 = Some (elems mode0)) \<and>
    ((\<forall>z \<in> set (elems mode1). f4 (fst z) = fst z \<and> f4 (snd z) = snd z) \<longrightarrow>
       read_layer (file_after (write_rho_cylindrical f mode0 mode1))
         [''data'', fmt_d i, ''fields'', ''rho''] 1 = Some (map fst (elems mode1)) \<and>
       read_layer (file_after (write_rho_cylindrical f mode0 mode1))
         [''data'', fmt_d i, ''fields'', ''rho''] 2 = Some (map snd (elems mode1)))"
proof -
  have len: "length (elems mode0) = nrows mode0 * ncols mode0"
    "length (elems mode1) = nrows mode0 * ncols mode0"
    using assms(4-6) by (simp_all add: wf_array_def shape_def)
  have fix0: "map f4 (elems mode0) = elems mode0" if "\<forall>x \<in> set (elems mode0). f4 x = x"
    using that by (simp add: map_idI)
  have fix1: "map f4 (map fst (elems mode1)) = map fst (elems mode1)"
    "map f4 (map snd (elems mode1)) = map snd (elems mode1)"
    if "\<forall>z \<in> set (elems mode1). f4 (fst z) = fst z \<and> f4 (snd z) = snd z"
    using that by simp_all
  have l0: "read_layer (file_after (write_rho_cylindrical f mode0 mode1))
        [''data'', fmt_d i, ''fields'', ''rho''] 0 = Some (map f4 (elems mode0))"
    and l1: "read_layer (file_after (write_rho_cylindrical f mode0 mode1))
        [''data'', fmt_d i, ''fields'', ''rho''] 1 = Some (map f4 (map fst (elems mode1)))"
    and l2: "read_layer (file_after (write_rho_cylindrical f mode0 mode1))
        [''data'', fmt_d i, ''fields'', ''rho''] 2 = Some (map f4 (map snd (elems mode1)))"
    and ok: "raised (write_rho_cylindrical f mode0 mode1) = None"
    unfolding write_rho_run(2) [OF assms(1-3) assms(6) assms(4,5)]
    using len by (simp_all add: file_after_def read_layer_def raised_def)
  show ?thesis
    using fix0 fix1 by (simp only: l0 l1 l2 ok) simp
qed

text \<open>The hypotheses of the amended C3 hold for a 1 by 2 pair on a new file.\<close>

theorem write_rho_layers_witness:
  "wf_array \<lparr>nrows = 1, ncols = 2, elems = [Fin 1, Fin (1 / 2)]\<rparr> \<and>
   wf_array \<lparr>nrows = 1, ncols = 2, elems = [(Fin 2, Fin 3), (Fin 0, Fin (- 1))]\<rparr> \<and>
   vacant (setup_root_attr h5_File_w 0 ''2015-06-01 12:00:00 +0200'')
     [''data'', fmt_d 0, ''fields'', ''rho''] \<and>
   f4 (Fin 1) = Fin 1 \<and> f4 (Fin (1 / 2)) = Fin (1 / 2) \<and> f4 (Fin 2) = Fin 2 \<and>
   f4 (Fin 3) = Fin 3 \<and> f4 (Fin 0) = Fin 0 \<and> f4 (Fin (- 1)) = Fin (- 1) \<and>
   raised (write_rho_cylindrical (setup_root_attr h5_File_w 0 ''2015-06-01 12:00:00 +0200'')
      \<lparr>nrows = 1, ncols = 2, elems = [Fin 1, Fin (1 / 2)]\<rparr>
      \<lparr>nrows = 1, ncols = 2, elems = [(Fin 2, Fin 3), (Fin 0, Fin (- 1))]\<rparr>) = None \<and>
   read_layer (file_after (write_rho_cylindrical
        (setup_root_attr h5_File_w 0 ''2015-06-01 12:00:00 +0200'')
        \<lparr>nrows = 1, ncols = 2, elems = [Fin 1, Fin (1 / 2)]\<rparr>
        \<lparr>nrows = 1, ncols = 2, elems = [(Fin 2, Fin 3), (Fin 0, Fin (- 1))]\<rparr>))
      [''data'', fmt_d 0, ''fields'', ''rho''] 0 = Some [Fin 1, Fin (1 / 2)] \<and>
   read_layer (file_after (write_rho_cylindrical
        (setup_root_attr h5_File_w 0 ''2015-06-01 12:00:00 +0200'')
        \<lparr>nrows = 1, ncols = 2, elems = [Fin 1, Fin (1 / 2)]\<rparr>
        \<lparr>nrows = 1, ncols = 2, elems = [(Fin 2, Fin 3), (Fin 0, Fin (- 1))]\<rparr>))
      [''data'', fmt_d 0, ''fields'', ''rho''] 1 = Some [Fin 2, Fin 0] \<and>
   read_layer (file_after (write_rho_cylindrical
        (setup_root_attr h5_File_w 0 ''2015-06-01 12:00:00 +0200'')
        \<lparr>nrows = 1, ncols = 2, elems = [Fin 1, Fin (1 / 2)]\<rparr>
        \<lparr>nrows = 1, ncols = 2, elems = [(Fin 2, Fin 3), (Fin 0, Fin (- 1))]\<rparr>))
      [''data'', fmt_d 0, ''fields'', ''rho''] 2 = Some [Fin 3, Fin (- 1)]"
proof -
  have r: "f4 (Fin 1) = Fin 1" "f4 (Fin (1 / 2)) = Fin (1 / 2)" "f4 (Fin 2) = Fin 2"
    "f4 (Fin 3) = Fin 3" "f4 (Fin 0) = Fin 0" "f4 (Fin (- 1)) = Fin (- 1)"
    by code_simp+
  show ?thesis
    using write_rho_layers [of "setup_root_attr h5_File_w 0 ''2015-06-01 12:00:00 +0200''" 0
      "\<lparr>nrows = 1, ncols = 2, elems = [Fin 1, Fin (1 / 2)]\<rparr>"
      "\<lparr>nrows = 1, ncols = 2, elems = [(Fin 2, Fin 3), (Fin 0, Fin (- 1))]\<rparr>"]
    by (simp add: setup_root_attr_ready wf_array_def shape_def r)
qed

text \<open>
  Claim C5. Given a 32 by 64 array of zeros and a 32 by 64 complex array of zeros, the
  dataset written is 3 by 32 by 64, all zeros, its \<^verbatim>\<open>unitDimension\<close> attribute is
  \<open>[-3, 0, 1, 1, 0, 0, 0]\<close> and its \<^verbatim>\<open>geometryParameters\<close> attribute is \<^verbatim>\<open>m=1; imag=+\<close>.
\<close>

theorem write_rho_zeros:
  assumes "root_attrs f ''basePath'' = Some (AStr (''/data/'' @ fmt_d i @ ''/''))"
    and "root_attrs f ''fieldsPath'' = Some (AStr ''fields/'')"
    and "vacant f [''data'', fmt_d i, ''fields'', ''rho'']"
  shows "raised (write_rho_cylindrical f
            \<lparr>nrows = 32, ncols = 64, elems = replicate 2048 (float_lit 0)\<rparr>
            \<lparr>nrows = 32, ncols = 64, elems = replicate 2048 (float_lit 0, float_lit 0)\<rparr>) = None \<and>
    (\<exists>ats. nodes (file_after (write_rho_cylindrical f
            \<lparr>nrows = 32, ncols = 64, elems = replicate 2048 (float_lit 0)\<rparr>
            \<lparr>nrows = 32, ncols = 64, elems = replicate 2048 (float_lit 0, float_lit 0)\<rparr>))
          [''data'', fmt_d i, ''fields'', ''rho'']
        = Some (Dataset [3, 32, 64] (replicate 6144 (Fin 0)) ats) \<and>
      ats ''unitDimension'' = Some (AArray [Fin (- 3), Fin 0, Fin 1, Fin 1, Fin 0, Fin 0, Fin 0]) \<and>
      ats ''geometryParameters'' = Some (AStr ''m=1; imag=+''))"
proof -
  have "shape \<lparr>nrows = 32, ncols = 64, elems = replicate 2048 (float_lit 0)\<rparr>
      = shape \<lparr>nrows = 32, ncols = 64, elems = replicate 2048 (float_lit 0, float_lit 0)\<rparr>"
    "wf_array \<lparr>nrows = 32, ncols = 64, elems = replicate 2048 (float_lit 0)\<rparr>"
    "wf_array \<lparr>nrows = 32, ncols = 64, elems = replicate 2048 (float_lit 0, float_lit 0)\<rparr>"
    by (simp_all add: shape_def wf_array_def)
  note run = write_rho_run(2) [OF assms this]
  have dat: "replicate 2048 (Fin 0) @ replicate 2048 (Fin 0) @ replicate 2048 (Fin 0)
      = replicate 6144 (Fin 0 :: pyfloat)"
    by (simp add: replicate_add [symmetric])
  have at: "rho_attrs ''unitDimension''
        = Some (AArray [Fin (- 3), Fin 0, Fin 1, Fin 1, Fin 0, Fin 0, Fin 0])"
    "rho_attrs ''geometryParameters'' = Some (AStr ''m=1; imag=+'')"
    by (simp_all add: rho_attrs_def np_array_def float_lit_small)
  show ?thesis
    unfolding run using at
    by (simp add: raised_def file_after_def float_lit_small f4_zero dat)
qed

text \<open>The hypotheses of C5 hold on a new file.\<close>

theorem write_rho_zeros_witness:
  "vacant (setup_root_attr h5_File_w 0 ''2015-06-01 12:00:00 +0200'')
     [''data'', fmt_d 0, ''fields'', ''rho''] \<and>
   raised (write_rho_cylindrical (setup_root_attr h5_File_w 0 ''2015-06-01 12:00:00 +0200'')
            \<lparr>nrows = 32, ncols = 64, elems = replicate 2048 (float_lit 0)\<rparr>
            \<lparr>nrows = 32, ncols = 64, elems = replicate 2048 (float_lit 0, float_lit 0)\<rparr>) = None"
  using write_rho_zeros [of "setup_root_attr h5_File_w 0 ''2015-06-01 12:00:00 +0200''" 0]
  by (simp add: setup_root_attr_ready)

section \<open>The vector-field writer\<close>

lemma ancestors_snoc: "c \<noteq> [] \<Longrightarrow> ancestors (c @ [x]) = ancestors c @ [c]"
proof -
  assume "c \<noteq> []"
  then have "[1..<length (c @ [x])] = [1..<length c] @ [length c]"
    by (cases c) simp_all
  moreover have "map (\<lambda>n. take n (c @ [x])) [1..<length c] = map (\<lambda>n. take n c) [1..<length c]"
    by simp
  ultimately show ?thesis by (simp add: ancestors_def)
qed

lemma add_groups_present: "\<forall>q \<in> set qs. m q \<noteq> None \<Longrightarrow> add_groups qs m = m"
  by (induction qs arbitrary: m) auto

lemma vacant_None: "vacant f c \<Longrightarrow> nodes f (c @ q) = None"
  by (simp add: vacant_def)

lemma vacant_self: "vacant f c \<Longrightarrow> nodes f c = None"
  using vacant_None [of f c "[]"] by simp

lemma vacant_ancestors: "vacant f c \<Longrightarrow> q \<in> set (ancestors c) \<Longrightarrow> \<not> is_dataset (nodes f q)"
  by (auto simp: vacant_def list_ex_iff)

lemma ancestors_not_below: "q \<in> set (ancestors c) \<Longrightarrow> q \<noteq> c @ r"
  using ancestors_shorter [of q c] by auto

text \<open>Creating a child of a node whose path was vacant, and of a group that exists.\<close>

lemma create_first_child:
  assumes "path_components p = c @ [x]" "c \<noteq> []" "vacant f c"
  shows "create_node p nd f =
     Inr (f\<lparr>nodes := (add_groups (ancestors c) (nodes f))(c \<mapsto> Group Map.empty, c @ [x] \<mapsto> nd)\<rparr>)"
proof -
  have anc: "ancestors (c @ [x]) = ancestors c @ [c]"
    using assms(2) by (rule ancestors_snoc)
  have "\<not> list_ex (\<lambda>q. is_dataset (nodes f q)) (ancestors (c @ [x]))"
    using vacant_ancestors [OF assms(3)] vacant_self [OF assms(3)]
    by (auto simp: anc list_ex_iff)
  moreover have "nodes f (c @ [x]) = None"
    using assms(3) by (rule vacant_None)
  moreover have "add_groups (ancestors (c @ [x])) (nodes f)
      = (add_groups (ancestors c) (nodes f))(c \<mapsto> Group Map.empty)"
    using vacant_self [OF assms(3)] ancestors_shorter [of c c]
    by (auto simp: anc add_groups_apply fun_eq_iff)
  ultimately show ?thesis
    using assms(1) by (simp add: create_node_def)
qed

lemma create_next_child:
  assumes "path_components p = c @ [x]" "c \<noteq> []"
    and "\<forall>q \<in> set (ancestors c). nodes f q \<noteq> None \<and> \<not> is_dataset (nodes f q)"
    and "nodes f c = Some (Group a)" and "nodes f (c @ [x]) = None"
  shows "create_node p nd f = Inr (f\<lparr>nodes := (nodes f)(c @ [x] \<mapsto> nd)\<rparr>)"
proof -
  have anc: "ancestors (c @ [x]) = ancestors c @ [c]"
    using assms(2) by (rule ancestors_snoc)
  have "\<not> list_ex (\<lambda>q. is_dataset (nodes f q)) (ancestors (c @ [x]))"
    using assms(3,4) by (auto simp: anc list_ex_iff)
  moreover have "add_groups (ancestors (c @ [x])) (nodes f) = nodes f"
    using assms(3,4) by (intro add_groups_present) (auto simp: anc)
  ultimately show ?thesis
    using assms(1,5) by (simp add: create_node_def)
qed

lemma add_groups_ancestors:
  assumes "vacant f c"
  shows "\<forall>q \<in> set (ancestors c). add_groups (ancestors c) (nodes f) q \<noteq> None \<and>
            \<not> is_dataset (add_groups (ancestors c) (nodes f) q)"
    and "add_groups (ancestors c) (nodes f) (c @ r) = None"
proof -
  show "\<forall>q \<in> set (ancestors c). add_groups (ancestors c) (nodes f) q \<noteq> None \<and>
            \<not> is_dataset (add_groups (ancestors c) (nodes f) q)"
    using vacant_ancestors [OF assms] by (auto simp: add_groups_apply)
  show "add_groups (ancestors c) (nodes f) (c @ r) = None"
    using vacant_None [OF assms, of r] ancestors_not_below [of "c @ r" c r]
    by (auto simp: add_groups_apply)
qed

lemma write_all_ok:
  assumes "path_components p = c" "c \<noteq> []" "nodes f c = Some (Dataset (shape arr) d a)"
  shows "write_all p arr f =
           Inr (f\<lparr>nodes := (nodes f)(c \<mapsto> Dataset (shape arr) (map f4 (elems arr)) a)\<rparr>)"
  using assms path_nonempty [OF assms(1,2)] by (simp add: write_all_def)

lemma e_components:
  "path_components (''/data/'' @ fmt_d i @ ''/'' @ ''fields/E/'') = [''data'', fmt_d i, ''fields'', ''E'']"
  "path_components ((''/data/'' @ fmt_d i @ ''/'' @ ''fields/E/'') @ ''x'')
     = [''data'', fmt_d i, ''fields'', ''E''] @ [''x'']"
  "path_components ((''/data/'' @ fmt_d i @ ''/'' @ ''fields/E/'') @ ''y'')
     = [''data'', fmt_d i, ''fields'', ''E''] @ [''y'']"
  "path_components ((''/data/'' @ fmt_d i @ ''/'' @ ''fields/E/'') @ ''z'')
     = [''data'', fmt_d i, ''fields'', ''E''] @ [''z'']"
proof -
  have "path_components ''fields/E/'' = [''fields'', ''E'']"
    "path_components ''fields/E/x'' = [''fields'', ''E'', ''x'']"
    "path_components ''fields/E/y'' = [''fields'', ''E'', ''y'']"
    "path_components ''fields/E/z'' = [''fields'', ''E'', ''z'']"
    by (simp_all add: path_components_def)
  then show
    "path_components (''/data/'' @ fmt_d i @ ''/'' @ ''fields/E/'') = [''data'', fmt_d i, ''fields'', ''E'']"
    "path_components ((''/data/'' @ fmt_d i @ ''/'' @ ''fields/E/'') @ ''x'')
       = [''data'', fmt_d i, ''fields'', ''E''] @ [''x'']"
    "path_components ((''/data/'' @ fmt_d i @ ''/'' @ ''fields/E/'') @ ''y'')
       = [''data'', fmt_d i, ''fields'', ''E''] @ [''y'']"
    "path_components ((''/data/'' @ fmt_d i @ ''/'' @ ''fields/E/'') @ ''z'')
       = [''data'', fmt_d i, ''fields'', ''E''] @ [''z'']"
    using base_path_components [of i "''fields/E/''"] base_path_components [of i "''fields/E/x''"]
      base_path_components [of i "''fields/E/y''"] base_path_components [of i "''fields/E/z''"]
    by simp_all
qed

lemma e_attr_statements:
  assumes pc: "path_components p = c" "c \<noteq> []"
    and nd: "nodes g c = Some (Group Map.empty)"
  shows "seq [set_attr p ''geometry'' (AStr ''cartesian''),
              set_attr p ''gridSpacing'' (np_array [1, 1]),
              set_attr p ''gridGlobalOffset'' (np_array [0, 0]),
              set_attr p ''gridUnitSI'' (AFloat (float_lit 1)),
              set_attr p ''dataOrder'' (AStr ''C''),
              set_attr p ''unitDimension'' (np_array [1, 1, - 3, - 1, 0, 0, 0]),
              (\<lambda>f. add_EDPIC_attr_fields f p),
              set_attr p ''time'' (AFloat (float_lit 0)),
              set_attr p ''timeUnitSI'' (AFloat (float_lit (1 / 10 ^ 9)))] g
         = Inr (g\<lparr>nodes := (nodes g)(c \<mapsto> Group e_attrs)\<rparr>)"
  using pc nd path_nonempty [OF pc]
  by (cases c) (simp_all add: set_attr_def add_EDPIC_attr_fields_def e_attrs_def)

lemma write_e_run:
  assumes base: "root_attrs f ''basePath'' = Some (AStr (''/data/'' @ fmt_d i @ ''/''))"
    and flds: "root_attrs f ''fieldsPath'' = Some (AStr ''fields/'')"
    and vac: "vacant f [''data'', fmt_d i, ''fields'', ''E'']"
  shows "write_e_2d_cartesian f data_ex data_ey data_ez =
     Inr (f\<lparr>nodes := (add_groups (ancestors [''data'', fmt_d i, ''fields'', ''E'']) (nodes f))
        ([''data'', fmt_d i, ''fields'', ''E''] \<mapsto> Group e_attrs,
         [''data'', fmt_d i, ''fields'', ''E''] @ [''x''] \<mapsto>
            Dataset (shape data_ex) (map f4 (elems data_ex))
              [''position'' \<mapsto> np_array [0, 1 / 2]],
         [''data'', fmt_d i, ''fields'', ''E''] @ [''y''] \<mapsto>
            Dataset (shape data_ey) (map f4 (elems data_ey))
              [''position'' \<mapsto> np_array [1 / 2, 0]],
         [''data'', fmt_d i, ''fields'', ''E''] @ [''z''] \<mapsto>
            Dataset (shape data_ez) (map f4 (elems data_ez))
              [''position'' \<mapsto> np_array [0, 0]])\<rparr>)"
proof -
  define p where "p = ''/data/'' @ fmt_d i @ ''/'' @ ''fields/E/''"
  define c where "c = [''data'', fmt_d i, ''fields'', ''E'']"
  define B where "B = add_groups (ancestors c) (nodes f)"
  define zx where "zx = replicate (prod_list (shape data_ex)) (Fin 0)"
  define zy where "zy = replicate (prod_list (shape data_ey)) (Fin 0)"
  define zz where "zz = replicate (prod_list (shape data_ez)) (Fin 0)"
  have fp: "full_path f ''fieldsPath'' ''E/'' = Inr p"
    using base flds by (simp add: full_path_def p_def)
  have pc: "path_components p = c" "path_components (p @ ''x'') = c @ [''x'']"
    "path_components (p @ ''y'') = c @ [''y'']" "path_components (p @ ''z'') = c @ [''z'']"
    unfolding p_def c_def by (rule e_components)+
  have c: "c \<noteq> []" by (simp add: c_def)
  have vac': "vacant f c" using vac by (simp only: c_def)
  have B: "\<forall>q \<in> set (ancestors c). B q \<noteq> None \<and> \<not> is_dataset (B q)"
    "B (c @ r) = None" for r
    unfolding B_def using add_groups_ancestors [OF vac'] by blast+
  have anc: "q \<noteq> c" "q \<noteq> c @ r" if "q \<in> set (ancestors c)" for q r
    using ancestors_not_below [OF that, of "[]"] ancestors_not_below [OF that, of r] by simp_all
  define f1 where "f1 = f\<lparr>nodes := B(c \<mapsto> Group Map.empty,
    c @ [''x''] \<mapsto> Dataset (shape data_ex) zx Map.empty)\<rparr>"
  define f2 where "f2 = f\<lparr>nodes := B(c \<mapsto> Group Map.empty,
    c @ [''x''] \<mapsto> Dataset (shape data_ex) zx Map.empty,
    c @ [''y''] \<mapsto> Dataset (shape data_ey) zy Map.empty)\<rparr>"
  define f3 where "f3 = f\<lparr>nodes := B(c \<mapsto> Group Map.empty,
    c @ [''x''] \<mapsto> Dataset (shape data_ex) zx Map.empty,
    c @ [''y''] \<mapsto> Dataset (shape data_ey) zy Map.empty,
    c @ [''z''] \<mapsto> Dataset (shape data_ez) zz Map.empty)\<rparr>"
  define f4' where "f4' = f\<lparr>nodes := B(c \<mapsto> Group e_attrs,
    c @ [''x''] \<mapsto> Dataset (shape data_ex) zx Map.empty,
    c @ [''y''] \<mapsto> Dataset (shape data_ey) zy Map.empty,
    c @ [''z''] \<mapsto> Dataset (shape data_ez) zz Map.empty)\<rparr>"
  define f5 where "f5 = f\<lparr>nodes := B(c \<mapsto> Group e_attrs,
    c @ [''x''] \<mapsto> Dataset (shape data_ex) (map f4 (elems data_ex))
       [''position'' \<mapsto> np_array [0, 1 / 2]],
    c @ [''y''] \<mapsto> Dataset (shape data_ey) (map f4 (elems data_ey))
       [''position'' \<mapsto> np_array [1 / 2, 0]],
    c @ [''z''] \<mapsto> Dataset (shape data_ez) (map f4 (elems data_ez))
       [''position'' \<mapsto> np_array [0, 0]])\<rparr>"
  have s1: "create_dataset (p @ ''x'') (shape data_ex) f = Inr f1"
    unfolding f1_def zx_def B_def
    using create_first_child [OF pc(2) c vac'] vacant_self [OF vac']
    by (simp add: create_dataset_def pc(2))
  have s2: "create_dataset (p @ ''y'') (shape data_ey) f1 = Inr f2"
  proof -
    have "\<forall>q \<in> set (ancestors c). nodes f1 q \<noteq> None \<and> \<not> is_dataset (nodes f1 q)"
      using B(1) anc by (simp add: f1_def)
    moreover have "nodes f1 c = Some (Group Map.empty)" "nodes f1 (c @ [''y'']) = None"
      using B(2) by (simp_all add: f1_def)
    ultimately show ?thesis
      using create_next_child [OF pc(3) c, of f1 Map.empty]
      by (simp add: create_dataset_def pc(3) f1_def f2_def zy_def)
  qed
  have s3: "create_dataset (p @ ''z'') (shape data_ez) f2 = Inr f3"
  proof -
    have "\<forall>q \<in> set (ancestors c). nodes f2 q \<noteq> None \<and> \<not> is_dataset (nodes f2 q)"
      using B(1) anc by (simp add: f2_def)
    moreover have "nodes f2 c = Some (Group Map.empty)" "nodes f2 (c @ [''z'']) = None"
      using B(2) by (simp_all add: f2_def)
    ultimately show ?thesis
      using create_next_child [OF pc(4) c, of f2 Map.empty]
      by (simp add: create_dataset_def pc(4) f2_def f3_def zz_def)
  qed
  have s123: "seq [create_dataset (p @ ''x'') (shape data_ex),
                   create_dataset (p @ ''y'') (shape data_ey),
                   create_dataset (p @ ''z'') (shape data_ez)] f = Inr f3"
    by (simp add: s1 s2 s3)
  have "nodes f3 c = Some (Group Map.empty)"
    by (simp add: f3_def)
  from e_attr_statements [OF pc(1) c this]
  have s4: "seq [set_attr p ''geometry'' (AStr ''cartesian''),
              set_attr p ''gridSpacing'' (np_array [1, 1]),
              set_attr p ''gridGlobalOffset'' (np_array [0, 0]),
              set_attr p ''gridUnitSI'' (AFloat (float_lit 1)),
              set_attr p ''dataOrder'' (AStr ''C''),
              set_attr p ''unitDimension'' (np_array [1, 1, - 3, - 1, 0, 0, 0]),
              (\<lambda>f. add_EDPIC_attr_fields f p),
              set_attr p ''time'' (AFloat (float_lit 0)),
              set_attr p ''timeUnitSI'' (AFloat (float_lit (1 / 10 ^ 9)))] f3 = Inr f4'"
    by (simp add: f3_def f4'_def fun_upd_twist [of c])
  have s5: "seq [set_attr (p @ ''x'') ''position'' (np_array [0, 1 / 2]),
              set_attr (p @ ''y'') ''position'' (np_array [1 / 2, 0]),
              set_attr (p @ ''z'') ''position'' (np_array [0, 0]),
              write_all (p @ ''x'') data_ex,
              write_all (p @ ''y'') data_ey,
              write_all (p @ ''z'') data_ez] f4' = Inr f5"
  proof -
    define g1 where "g1 = f4'\<lparr>nodes := (nodes f4')(c @ [''x''] \<mapsto>
        Dataset (shape data_ex) zx [''position'' \<mapsto> np_array [0, 1 / 2]])\<rparr>"
    define g2 where "g2 = g1\<lparr>nodes := (nodes g1)(c @ [''y''] \<mapsto>
        Dataset (shape data_ey) zy [''position'' \<mapsto> np_array [1 / 2, 0]])\<rparr>"
    define g3 where "g3 = g2\<lparr>nodes := (nodes g2)(c @ [''z''] \<mapsto>
        Dataset (shape data_ez) zz [''position'' \<mapsto> np_array [0, 0]])\<rparr>"
    define g4 where "g4 = g3\<lparr>nodes := (nodes g3)(c @ [''x''] \<mapsto>
        Dataset (shape data_ex) (map f4 (elems data_ex)) [''position'' \<mapsto> np_array [0, 1 / 2]])\<rparr>"
    define g5 where "g5 = g4\<lparr>nodes := (nodes g4)(c @ [''y''] \<mapsto>
        Dataset (shape data_ey) (map f4 (elems data_ey)) [''position'' \<mapsto> np_array [1 / 2, 0]])\<rparr>"
    define g6 where "g6 = g5\<lparr>nodes := (nodes g5)(c @ [''z''] \<mapsto>
        Dataset (shape data_ez) (map f4 (elems data_ez)) [''position'' \<mapsto> np_array [0, 0]])\<rparr>"
    have t1: "set_attr (p @ ''x'') ''position'' (np_array [0, 1 / 2]) f4' = Inr g1"
      unfolding g1_def
      by (rule set_attr_dataset [OF pc(2), where a = Map.empty]) (simp_all add: f4'_def)
    have t2: "set_attr (p @ ''y'') ''position'' (np_array [1 / 2, 0]) g1 = Inr g2"
      unfolding g2_def
      by (rule set_attr_dataset [OF pc(3), where a = Map.empty]) (simp_all add: g1_def f4'_def)
    have t3: "set_attr (p @ ''z'') ''position'' (np_array [0, 0]) g2 = Inr g3"
      unfolding g3_def
      by (rule set_attr_dataset [OF pc(4), where a = Map.empty])
        (simp_all add: g2_def g1_def f4'_def)
    have t4: "write_all (p @ ''x'') data_ex g3 = Inr g4"
      unfolding g4_def
      by (rule write_all_ok [OF pc(2)]) (simp_all add: g3_def g2_def g1_def f4'_def)
    have t5: "write_all (p @ ''y'') data_ey g4 = Inr g5"
      unfolding g5_def
      by (rule write_all_ok [OF pc(3)]) (simp_all add: g4_def g3_def g2_def g1_def f4'_def)
    have t6: "write_all (p @ ''z'') data_ez g5 = Inr g6"
      unfolding g6_def
      by (rule write_all_ok [OF pc(4)])
        (simp_all add: g5_def g4_def g3_def g2_def g1_def f4'_def)
    have "nodes g6 = nodes f5"
      by (rule ext) (simp add: g6_def g5_def g4_def g3_def g2_def g1_def f4'_def f5_def)
    then have "g6 = f5"
      by (simp add: g6_def g5_def g4_def g3_def g2_def g1_def f4'_def f5_def)
    then show ?thesis by (simp add: t1 t2 t3 t4 t5 t6)
  qed
  have "write_e_2d_cartesian f data_ex data_ey data_ez =
     seq ([create_dataset (p @ ''x'') (shape data_ex),
           create_dataset (p @ ''y'') (shape data_ey),
           create_dataset (p @ ''z'') (shape data_ez)] @
          [set_attr p ''geometry'' (AStr ''cartesian''),
              set_attr p ''gridSpacing'' (np_array [1, 1]),
              set_attr p ''gridGlobalOffset'' (np_array [0, 0]),
              set_attr p ''gridUnitSI'' (AFloat (float_lit 1)),
              set_attr p ''dataOrder'' (AStr ''C''),
              set_attr p ''unitDimension'' (np_array [1, 1, - 3, - 1, 0, 0, 0]),
              (\<lambda>f. add_EDPIC_attr_fields f p),
              set_attr p ''time'' (AFloat (float_lit 0)),
              set_attr p ''timeUnitSI'' (AFloat (float_lit (1 / 10 ^ 9)))] @
          [set_attr (p @ ''x'') ''position'' (np_array [0, 1 / 2]),
              set_attr (p @ ''y'') ''position'' (np_array [1 / 2, 0]),
              set_attr (p @ ''z'') ''position'' (np_array [0, 0]),
              write_all (p @ ''x'') data_ex,
              write_all (p @ ''y'') data_ey,
              write_all (p @ ''z'') data_ez]) f"
    unfolding write_e_2d_cartesian_def fp by simp
  also have "\<dots> = Inr f5"
    by (simp only: seq_append s123 s4 s5 sum.case)
  finally show ?thesis
    unfolding f5_def B_def c_def .
qed

text \<open>
  Claim C4. On a file whose root attributes \<open>setup_root_attr\<close> has written and in which
  nothing exists yet at the path of E, for every triple of two-dimensional arrays the
  call completes; below the group E there are exactly the three datasets x, y and z,
  each of the shape of its input array; the group carries the geometry and grid
  attributes once, and each dataset carries only its own two-element position:
  \<open>[0, 0.5]\<close> for x, \<open>[0.5, 0]\<close> for y and \<open>[0, 0]\<close> for z.
\<close>

theorem write_e_components:
  assumes "root_attrs f ''basePath'' = Some (AStr (''/data/'' @ fmt_d i @ ''/''))"
    and "root_attrs f ''fieldsPath'' = Some (AStr ''fields/'')"
    and "vacant f [''data'', fmt_d i, ''fields'', ''E'']"
  shows "raised (write_e_2d_cartesian f data_ex data_ey data_ez) = None \<and>
    {q. q \<noteq> [] \<and> nodes (file_after (write_e_2d_cartesian f data_ex data_ey data_ez))
                     ([''data'', fmt_d i, ''fields'', ''E''] @ q) \<noteq> None}
      = {[''x''], [''y''], [''z'']} \<and>
    nodes (file_after (write_e_2d_cartesian f data_ex data_ey data_ez))
        [''data'', fmt_d i, ''fields'', ''E'', ''x'']
      = Some (Dataset [nrows data_ex, ncols data_ex] (map f4 (elems data_ex))
                [''position'' \<mapsto> AArray [Fin 0, Fin (1 / 2)]]) \<and>
    nodes (file_after (write_e_2d_cartesian f data_ex data_ey data_ez))
        [''data'', fmt_d i, ''fields'', ''E'', ''y'']
      = Some (Dataset [nrows data_ey, ncols data_ey] (map f4 (elems data_ey))
                [''position'' \<mapsto> AArray [Fin (1 / 2), Fin 0]]) \<and>
    nodes (file_after (write_e_2d_cartesian f data_ex data_ey data_ez))
        [''data'', fmt_d i, ''fields'', ''E'', ''z'']
      = Some (Dataset [nrows data_ez, ncols data_ez] (map f4 (elems data_ez))
                [''position'' \<mapsto> AArray [Fin 0, Fin 0]]) \<and>
    nodes (file_after (write_e_2d_cartesian f data_ex data_ey data_ez))
        [''data'', fmt_d i, ''fields'', ''E'']
      = Some (Group e_attrs) \<and>
    e_attrs ''geometry'' = Some (AStr ''cartesian'') \<and>
    e_attrs ''gridSpacing'' = Some (AArray [Fin 1, Fin 1]) \<and>
    e_attrs ''gridGlobalOffset'' = Some (AArray [Fin 0, Fin 0]) \<and>
    e_attrs ''gridUnitSI'' = Some (AFloat (Fin 1)) \<and>
    e_attrs ''dataOrder'' = Some (AStr ''C'')"
proof -
  note run = write_e_run [OF assms, of data_ex data_ey data_ez]
  have below: "add_groups (ancestors [''data'', fmt_d i, ''fields'', ''E'']) (nodes f)
      ([''data'', fmt_d i, ''fields'', ''E''] @ q) = None" for q
    by (rule add_groups_ancestors(2) [OF assms(3)])
  have pos: "np_array [0, 1 / 2] = AArray [Fin 0, Fin (1 / 2)]"
    "np_array [1 / 2, 0] = AArray [Fin (1 / 2), Fin 0]"
    "np_array [0, 0] = AArray [Fin 0, Fin 0]"
    by (simp_all add: np_array_def float_lit_small)
  have ok: "raised (write_e_2d_cartesian f data_ex data_ey data_ez) = None"
    unfolding run by (simp add: raised_def)
  have kids: "{q. q \<noteq> [] \<and> nodes (file_after (write_e_2d_cartesian f data_ex data_ey data_ez))
                     ([''data'', fmt_d i, ''fields'', ''E''] @ q) \<noteq> None}
      = {[''x''], [''y''], [''z'']}"
    unfolding run using below by (auto simp: file_after_def)
  have comps: "nodes (file_after (write_e_2d_cartesian f data_ex data_ey data_ez))
        [''data'', fmt_d i, ''fields'', ''E'', ''x'']
      = Some (Dataset [nrows data_ex, ncols data_ex] (map f4 (elems data_ex))
                [''position'' \<mapsto> AArray [Fin 0, Fin (1 / 2)]])"
    "nodes (file_after (write_e_2d_cartesian f data_ex data_ey data_ez))
        [''data'', fmt_d i, ''fields'', ''E'', ''y'']
      = Some (Dataset [nrows data_ey, ncols data_ey] (map f4 (elems data_ey))
                [''position'' \<mapsto> AArray [Fin (1 / 2), Fin 0]])"
    "nodes (file_after (write_e_2d_cartesian f data_ex data_ey data_ez))
        [''data'', fmt_d i, ''fields'', ''E'', ''z'']
      = Some (Dataset [nrows data_ez, ncols data_ez] (map f4 (elems data_ez))
                [''position'' \<mapsto> AArray [Fin 0, Fin 0]])"
    "nodes (file_after (write_e_2d_cartesian f data_ex data_ey data_ez))
        [''data'', fmt_d i, ''fields'', ''E'']
      = Some (Group e_attrs)"
    unfolding run by (simp_all add: file_after_def pos shape_def)
  have grp: "e_attrs ''geometry'' = Some (AStr ''cartesian'')"
    "e_attrs ''gridSpacing'' = Some (AArray [Fin 1, Fin 1])"
    "e_attrs ''gridGlobalOffset'' = Some (AArray [Fin 0, Fin 0])"
    "e_attrs ''gridUnitSI'' = Some (AFloat (Fin 1))"
    "e_attrs ''dataOrder'' = Some (AStr ''C'')"
    by (simp_all add: e_attrs_def np_array_def float_lit_small)
  show ?thesis
    by (intro conjI ok kids comps grp)
qed

text \<open>The hypotheses of C4 hold on a new file, for three 1 by 2 arrays of ones.\<close>

theorem write_e_components_witness:
  "vacant (setup_root_attr h5_File_w 0 ''2015-06-01 12:00:00 +0200'')
     [''data'', fmt_d 0, ''fields'', ''E''] \<and>
   raised (write_e_2d_cartesian (setup_root_attr h5_File_w 0 ''2015-06-01 12:00:00 +0200'')
      \<lparr>nrows = 1, ncols = 2, elems = [Fin 1, Fin 1]\<rparr>
      \<lparr>nrows = 1, ncols = 2, elems = [Fin 1, Fin 1]\<rparr>
      \<lparr>nrows = 1, ncols = 2, elems = [Fin 1, Fin 1]\<rparr>) = None \<and>
   nodes (file_after (write_e_2d_cartesian
        (setup_root_attr h5_File_w 0 ''2015-06-01 12:00:00 +0200'')
        \<lparr>nrows = 1, ncols = 2, elems = [Fin 1, Fin 1]\<rparr>
        \<lparr>nrows = 1, ncols = 2, elems = [Fin 1, Fin 1]\<rparr>
        \<lparr>nrows = 1, ncols = 2, elems = [Fin 1, Fin 1]\<rparr>))
      [''data'', ''0'', ''fields'', ''E'', ''x'']
     = Some (Dataset [1, 2] [Fin 1, Fin 1] [''position'' \<mapsto> AArray [Fin 0, Fin (1 / 2)]])"
proof -
  have r: "f4 (Fin 1) = Fin 1" by code_simp
  show ?thesis
    using write_e_components [of "setup_root_attr h5_File_w 0 ''2015-06-01 12:00:00 +0200''" 0
      "\<lparr>nrows = 1, ncols = 2, elems = [Fin 1, Fin 1]\<rparr>"
      "\<lparr>nrows = 1, ncols = 2, elems = [Fin 1, Fin 1]\<rparr>"
      "\<lparr>nrows = 1, ncols = 2, elems = [Fin 1, Fin 1]\<rparr>"]
    by (simp add: setup_root_attr_ready r fmt_d_examples)
qed

text \<open>
  Claim C7 against the code. The vector-field writer gives the group E a
  \<^verbatim>\<open>unitDimension\<close> but no \<^verbatim>\<open>unitSI\<close>, and the three datasets carry nothing but their
  position, so the field E has no unit scale at the group or at the dataset level; the
  scalar-field writer does set \<^verbatim>\<open>unitSI\<close> on rho.
\<close>

theorem write_e_no_unitSI:
  "nodes (file_after (write_e_2d_cartesian
        (setup_root_attr h5_File_w 0 ''2015-06-01 12:00:00 +0200'')
        \<lparr>nrows = 1, ncols = 1, elems = [Fin 1]\<rparr>
        \<lparr>nrows = 1, ncols = 1, elems = [Fin 1]\<rparr>
        \<lparr>nrows = 1, ncols = 1, elems = [Fin 1]\<rparr>))
      [''data'', ''0'', ''fields'', ''E''] = Some (Group e_attrs) \<and>
   e_attrs ''unitSI'' = None \<and>
   e_attrs ''unitDimension''
     = Some (AArray [Fin 1, Fin 1, Fin (- 3), Fin (- 1), Fin 0, Fin 0, Fin 0]) \<and>
   nodes (file_after (write_e_2d_cartesian
        (setup_root_attr h5_File_w 0 ''2015-06-01 12:00:00 +0200'')
        \<lparr>nrows = 1, ncols = 1, elems = [Fin 1]\<rparr>
        \<lparr>nrows = 1, ncols = 1, elems = [Fin 1]\<rparr>
        \<lparr>nrows = 1, ncols = 1, elems = [Fin 1]\<rparr>))
      [''data'', ''0'', ''fields'', ''E'', ''x'']
     = Some (Dataset [1, 1] [Fin 1] [''position'' \<mapsto> AArray [Fin 0, Fin (1 / 2)]]) \<and>
   nodes (file_after (write_e_2d_cartesian
        (setup_root_attr h5_File_w 0 ''2015-06-01 12:00:00 +0200'')
        \<lparr>nrows = 1, ncols = 1, elems = [Fin 1]\<rparr>
        \<lparr>nrows = 1, ncols = 1, elems = [Fin 1]\<rparr>
        \<lparr>nrows = 1, ncols = 1, elems = [Fin 1]\<rparr>))
      [''data'', ''0'', ''fields'', ''E'', ''y'']
     = Some (Dataset [1, 1] [Fin 1] [''position'' \<mapsto> AArray [Fin (1 / 2), Fin 0]]) \<and>
   nodes (file_after (write_e_2d_cartesian
        (setup_root_attr h5_File_w 0 ''2015-06-01 12:00:00 +0200'')
        \<lparr>nrows = 1, ncols = 1, elems = [Fin 1]\<rparr>
        \<lparr>nrows = 1, ncols = 1, elems = [Fin 1]\<rparr>
        \<lparr>nrows = 1, ncols = 1, elems = [Fin 1]\<rparr>))
      [''data'', ''0'', ''fields'', ''E'', ''z'']
     = Some (Dataset [1, 1] [Fin 1] [''position'' \<mapsto> AArray [Fin 0, Fin 0]]) \<and>
   rho_attrs ''unitSI'' = Some (AFloat (Fin 1))"
proof -
  have r: "f4 (Fin 1) = Fin 1" "float_lit (- 1) = Fin (- 1)" by code_simp+
  note run = write_e_run [OF setup_root_attr_ready(1)
      [of h5_File_w 0 "''2015-06-01 12:00:00 +0200''"]
      setup_root_attr_ready(2) setup_root_attr_ready(4),
      of "\<lparr>nrows = 1, ncols = 1, elems = [Fin 1]\<rparr>"
         "\<lparr>nrows = 1, ncols = 1, elems = [Fin 1]\<rparr>"
         "\<lparr>nrows = 1, ncols = 1, elems = [Fin 1]\<rparr>"]
  have a: "e_attrs ''unitSI'' = None"
    "e_attrs ''unitDimension''
       = Some (AArray [Fin 1, Fin 1, Fin (- 3), Fin (- 1), Fin 0, Fin 0, Fin 0])"
    "rho_attrs ''unitSI'' = Some (AFloat (Fin 1))"
    by (simp_all add: e_attrs_def rho_attrs_def np_array_def float_lit_small)
  show ?thesis
    unfolding run
    by (simp add: a file_after_def fmt_d_examples shape_def np_array_def float_lit_small r)
qed

section \<open>The species writer\<close>

lemma particles_components:
  "path_components ((''/data/'' @ fmt_d i @ ''/'' @ ''particles/'') @ ''electrons/charge'')
     = [''data'', fmt_d i, ''particles'', ''electrons''] @ [''charge'']"
  "path_components ((''/data/'' @ fmt_d i @ ''/'' @ ''particles/'') @ ''electrons/mass'')
     = [''data'', fmt_d i, ''particles'', ''electrons''] @ [''mass'']"
  "path_components ((''/data/'' @ fmt_d i @ ''/'' @ ''particles/'') @ ''electrons'')
     = [''data'', fmt_d i, ''particles'', ''electrons'']"
proof -
  have "path_components ''particles/electrons/charge'' = [''particles'', ''electrons'', ''charge'']"
    "path_components ''particles/electrons/mass'' = [''particles'', ''electrons'', ''mass'']"
    "path_components ''particles/electrons'' = [''particles'', ''electrons'']"
    by (simp_all add: path_components_def)
  then show
    "path_components ((''/data/'' @ fmt_d i @ ''/'' @ ''particles/'') @ ''electrons/charge'')
       = [''data'', fmt_d i, ''particles'', ''electrons''] @ [''charge'']"
    "path_components ((''/data/'' @ fmt_d i @ ''/'' @ ''particles/'') @ ''electrons/mass'')
       = [''data'', fmt_d i, ''particles'', ''electrons''] @ [''mass'']"
    "path_components ((''/data/'' @ fmt_d i @ ''/'' @ ''particles/'') @ ''electrons'')
       = [''data'', fmt_d i, ''particles'', ''electrons'']"
    using base_path_components [of i "''particles/electrons/charge''"]
      base_path_components [of i "''particles/electrons/mass''"]
      base_path_components [of i "''particles/electrons''"]
    by simp_all
qed

lemma three_attrs:
  assumes "path_components p = c" "c \<noteq> []" "nodes g c = Some (Group a)"
  shows "seq [set_attr p n1 v1, set_attr p n2 v2, set_attr p n3 v3] g
         = Inr (g\<lparr>nodes := (nodes g)(c \<mapsto> Group (a(n1 \<mapsto> v1, n2 \<mapsto> v2, n3 \<mapsto> v3)))\<rparr>)"
  using assms path_nonempty [OF assms(1,2)] by (cases c) (simp_all add: set_attr_def)


lemma seq_undefined_name: "seq (undefined_name n # ss) g = Inl (NameError n, g)"
  by (simp add: undefined_name_def)


lemma write_particles_run:
  assumes base: "root_attrs f ''basePath'' = Some (AStr (''/data/'' @ fmt_d i @ ''/''))"
    and part: "root_attrs f ''particlesPath'' = Some (AStr ''particles/'')"
    and vac: "vacant f [''data'', fmt_d i, ''particles'', ''electrons'']"
  shows "write_particles f =
     Inl (NameError ''addEDPICAttrParticles'',
       f\<lparr>nodes := (add_groups (ancestors [''data'', fmt_d i, ''particles'', ''electrons'']) (nodes f))
        ([''data'', fmt_d i, ''particles'', ''electrons''] \<mapsto>
            Group [''longName'' \<mapsto> AStr ''My first electron species''],
         [''data'', fmt_d i, ''particles'', ''electrons''] @ [''charge''] \<mapsto>
            Group [''value'' \<mapsto> AFloat (float_lit (- 1)),
                   ''unitSI'' \<mapsto> AFloat (float_lit (160217657 / 10 ^ 27)),
                   ''unitDimension'' \<mapsto> np_array [0, 0, 1, 1, 0, 0, 0]],
         [''data'', fmt_d i, ''particles'', ''electrons''] @ [''mass''] \<mapsto>
            Group [''value'' \<mapsto> AFloat (float_lit 1),
                   ''unitSI'' \<mapsto> AFloat (float_lit (910938291 / 10 ^ 39)),
                   ''unitDimension'' \<mapsto> np_array [0, 1, 0, 0, 0, 0, 0]])\<rparr>)"
proof -
  define p where "p = ''/data/'' @ fmt_d i @ ''/'' @ ''particles/''"
  define c where "c = [''data'', fmt_d i, ''particles'', ''electrons'']"
  define B where "B = add_groups (ancestors c) (nodes f)"
  define ca where "ca = [''value'' \<mapsto> AFloat (float_lit (- 1)),
                   ''unitSI'' \<mapsto> AFloat (float_lit (160217657 / 10 ^ 27)),
                   ''unitDimension'' \<mapsto> np_array [0, 0, 1, 1, 0, 0, 0]]"
  define ma where "ma = [''value'' \<mapsto> AFloat (float_lit 1),
                   ''unitSI'' \<mapsto> AFloat (float_lit (910938291 / 10 ^ 39)),
                   ''unitDimension'' \<mapsto> np_array [0, 1, 0, 0, 0, 0, 0]]"
  have fp: "full_path f ''particlesPath'' [] = Inr p"
    using base part by (simp add: full_path_def p_def)
  have pc: "path_components (p @ ''electrons/charge'') = c @ [''charge'']"
    "path_components (p @ ''electrons/mass'') = c @ [''mass'']"
    "path_components (p @ ''electrons'') = c"
    unfolding p_def c_def by (rule particles_components)+
  have c: "c \<noteq> []" by (simp add: c_def)
  have vac': "vacant f c" using vac by (simp only: c_def)
  have B: "\<forall>q \<in> set (ancestors c). B q \<noteq> None \<and> \<not> is_dataset (B q)"
    "B (c @ r) = None" for r
    unfolding B_def using add_groups_ancestors [OF vac'] by blast+
  have anc: "q \<noteq> c" "q \<noteq> c @ r" if "q \<in> set (ancestors c)" for q r
    using ancestors_not_below [OF that, of "[]"] ancestors_not_below [OF that, of r] by simp_all
  define f1 where "f1 = f\<lparr>nodes := B(c \<mapsto> Group Map.empty, c @ [''charge''] \<mapsto> Group Map.empty)\<rparr>"
  define f2 where "f2 = f\<lparr>nodes := B(c \<mapsto> Group Map.empty, c @ [''charge''] \<mapsto> Group ca)\<rparr>"
  define f3 where "f3 = f\<lparr>nodes := B(c \<mapsto> Group Map.empty, c @ [''charge''] \<mapsto> Group ca,
      c @ [''mass''] \<mapsto> Group Map.empty)\<rparr>"
  define f4' where "f4' = f\<lparr>nodes := B(c \<mapsto> Group Map.empty, c @ [''charge''] \<mapsto> Group ca,
      c @ [''mass''] \<mapsto> Group ma)\<rparr>"
  define f5 where "f5 = f\<lparr>nodes := B(c \<mapsto> Group [''longName'' \<mapsto> AStr ''My first electron species''],
      c @ [''charge''] \<mapsto> Group ca, c @ [''mass''] \<mapsto> Group ma)\<rparr>"
  have s1: "seq [create_group (p @ ''electrons/charge'')] f = Inr f1"
    unfolding f1_def B_def
    using create_first_child [OF pc(1) c vac'] by (simp add: create_group_def)
  have s2: "seq [set_attr (p @ ''electrons/charge'') ''value'' (AFloat (float_lit (- 1))),
              set_attr (p @ ''electrons/charge'') ''unitSI''
                (AFloat (float_lit (160217657 / 10 ^ 27))),
              set_attr (p @ ''electrons/charge'') ''unitDimension''
                (np_array [0, 0, 1, 1, 0, 0, 0])] f1 = Inr f2"
  proof -
    have "nodes f1 (c @ [''charge'']) = Some (Group Map.empty)"
      by (simp add: f1_def)
    from three_attrs [OF pc(1) _ this] show ?thesis
      by (simp add: f1_def f2_def ca_def del: seq.simps)
  qed
  have s3: "seq [create_group (p @ ''electrons/mass'')] f2 = Inr f3"
  proof -
    have "\<forall>q \<in> set (ancestors c). nodes f2 q \<noteq> None \<and> \<not> is_dataset (nodes f2 q)"
      using B(1) anc by (simp add: f2_def)
    moreover have "nodes f2 c = Some (Group Map.empty)" "nodes f2 (c @ [''mass'']) = None"
      using B(2) by (simp_all add: f2_def)
    ultimately show ?thesis
      using create_next_child [OF pc(2) c, of f2 Map.empty]
      by (simp add: create_group_def f2_def f3_def)
  qed
  have s4: "seq [set_attr (p @ ''electrons/mass'') ''value'' (AFloat (float_lit 1)),
              set_attr (p @ ''electrons/mass'') ''unitSI''
                (AFloat (float_lit (910938291 / 10 ^ 39))),
              set_attr (p @ ''electrons/mass'') ''unitDimension''
                (np_array [0, 1, 0, 0, 0, 0, 0])] f3 = Inr f4'"
  proof -
    have "nodes f3 (c @ [''mass'']) = Some (Group Map.empty)"
      by (simp add: f3_def)
    from three_attrs [OF pc(2) _ this] show ?thesis
      by (simp add: f3_def f4'_def ma_def del: seq.simps)
  qed
  have s5: "seq [set_attr (p @ ''electrons'') ''longName'' (AStr ''My first electron species'')] f4'
      = Inr f5"
  proof -
    have n: "nodes f4' c = Some (Group Map.empty)"
      by (simp add: f4'_def)
    have "nodes (f4'\<lparr>nodes := (nodes f4')(c \<mapsto>
        Group [''longName'' \<mapsto> AStr ''My first electron species''])\<rparr>) = nodes f5"
      by (rule ext) (simp add: f4'_def f5_def)
    then have "f4'\<lparr>nodes := (nodes f4')(c \<mapsto>
        Group [''longName'' \<mapsto> AStr ''My first electron species''])\<rparr> = f5"
      by (simp add: f4'_def f5_def)
    with set_attr_group [OF pc(3) c n] show ?thesis by simp
  qed
  have "write_particles f =
     seq ([create_group (p @ ''electrons/charge'')] @
          [set_attr (p @ ''electrons/charge'') ''value'' (AFloat (float_lit (- 1))),
              set_attr (p @ ''electrons/charge'') ''unitSI''
                (AFloat (float_lit (160217657 / 10 ^ 27))),
              set_attr (p @ ''electrons/charge'') ''unitDimension''
                (np_array [0, 0, 1, 1, 0, 0, 0])] @
          [create_group (p @ ''electrons/mass'')] @
          [set_attr (p @ ''electrons/mass'') ''value'' (AFloat (float_lit 1)),
              set_attr (p @ ''electrons/mass'') ''unitSI''
                (AFloat (float_lit (910938291 / 10 ^ 39))),
              set_attr (p @ ''electrons/mass'') ''unitDimension''
                (np_array [0, 1, 0, 0, 0, 0, 0])] @
          [set_attr (p @ ''electrons'') ''longName'' (AStr ''My first electron species'')] @
          undefined_name ''addEDPICAttrParticles'' #
          [create_dataset (p @ ''electrons/weighting'') [128],
              set_attr (p @ ''electrons/weighting'') ''unitSI''
                (AFloat (float_lit 1)),
              set_attr (p @ ''electrons/weighting'') ''unitDimension''
                (np_array [0, 0, 0, 0, 0, 0, 0]),
              create_dataset (p @ ''electrons/position/x'') [128],
              create_dataset (p @ ''electrons/position/y'') [128],
              create_dataset (p @ ''electrons/position/z'') [128],
              set_attr (p @ ''electrons/position'') ''unitSI''
                (AFloat (float_lit (1 / 10 ^ 9))),
              set_attr (p @ ''electrons/position'') ''unitDimension''
                (np_array [1, 0, 0, 0, 0, 0, 0]),
              create_dataset (p @ ''electrons/momentum/x'') [128],
              create_dataset (p @ ''electrons/momentum/y'') [128],
              create_dataset (p @ ''electrons/momentum/z'') [128],
              set_attr (p @ ''electrons/momentum'') ''unitSI''
                (AFloat (float_lit (160217657 / 10 ^ 27))),
              set_attr (p @ ''electrons/momentum'') ''unitDimension''
                (np_array [1, 1, - 1, 0, 0, 0, 0])]) f"
    unfolding write_particles_def fp by simp
  also have "\<dots> = Inl (NameError ''addEDPICAttrParticles'', f5)"
    by (simp only: seq_append s1 s2 s3 s4 s5 sum.case seq_undefined_name)
  finally show ?thesis
    unfolding f5_def B_def c_def ca_def ma_def .
qed




text \<open>
  Claim C6 against the code. On a new file with the root attributes of iteration 0, the
  call ends with the \<^verbatim>\<open>NameError\<close> of line 228 and none of the arrays of lines 231 to 251
  exists.
\<close>

theorem write_particles_no_arrays:
  "raised (write_particles (setup_root_attr h5_File_w 0 ''2015-06-01 12:00:00 +0200''))
     = Some (NameError ''addEDPICAttrParticles'') \<and>
   nodes (file_after (write_particles (setup_root_attr h5_File_w 0 ''2015-06-01 12:00:00 +0200'')))
       [''data'', ''0'', ''particles'', ''electrons'', ''weighting''] = None \<and>
   nodes (file_after (write_particles (setup_root_attr h5_File_w 0 ''2015-06-01 12:00:00 +0200'')))
       [''data'', ''0'', ''particles'', ''electrons'', ''position''] = None \<and>
   nodes (file_after (write_particles (setup_root_attr h5_File_w 0 ''2015-06-01 12:00:00 +0200'')))
       [''data'', ''0'', ''particles'', ''electrons'', ''position'', ''x''] = None \<and>
   nodes (file_after (write_particles (setup_root_attr h5_File_w 0 ''2015-06-01 12:00:00 +0200'')))
       [''data'', ''0'', ''particles'', ''electrons'', ''momentum''] = None \<and>
   nodes (file_after (write_particles (setup_root_attr h5_File_w 0 ''2015-06-01 12:00:00 +0200'')))
       [''data'', ''0'', ''particles'', ''electrons'', ''momentum'', ''x''] = None"
proof -
  note run = write_particles_run [OF setup_root_attr_ready(1)
      [of h5_File_w 0 "''2015-06-01 12:00:00 +0200''"]
      setup_root_attr_ready(3) setup_root_attr_ready(4)]
  have below: "add_groups (ancestors [''data'', fmt_d 0, ''particles'', ''electrons''])
      (nodes (setup_root_attr h5_File_w 0 ''2015-06-01 12:00:00 +0200''))
      ([''data'', fmt_d 0, ''particles'', ''electrons''] @ q) = None" for q
    by (rule add_groups_ancestors(2) [OF setup_root_attr_ready(4)])
  show ?thesis
    unfolding run
    using below [of "[''weighting'']"] below [of "[''position'']"] below [of "[''momentum'']"]
      below [of "[''position'', ''x'']"] below [of "[''momentum'', ''x'']"]
    by (simp add: raised_def file_after_def fmt_d_examples)
qed

section \<open>The script: both fields on a new file\<close>

text \<open>The script's own order: the vector field is written after the scalar field.\<close>

lemma vacant_after_rho:
  assumes "vacant f [''data'', d, ''fields'', ''rho'']"
    and "vacant f [''data'', d, ''fields'', ''E'']"
  shows "vacant (f\<lparr>nodes := (add_groups (ancestors [''data'', d, ''fields'', ''rho'']) (nodes f))
                ([''data'', d, ''fields'', ''rho''] \<mapsto> nd)\<rparr>) [''data'', d, ''fields'', ''E'']"
proof -
  have anc: "ancestors [''data'', d, ''fields'', ''E''] = ancestors [''data'', d, ''fields'', ''rho'']"
    by (simp add: ancestors_def)
  have a: "\<not> is_dataset (nodes f q)" if "q \<in> set (ancestors [''data'', d, ''fields'', ''rho''])" for q
    using vacant_ancestors [OF assms(1) that] .
  have b: "q \<noteq> [''data'', d, ''fields'', ''rho'']"
    if "q \<in> set (ancestors [''data'', d, ''fields'', ''rho''])" for q
    using ancestors_not_below [OF that, of "[]"] by simp
  have c: "add_groups (ancestors [''data'', d, ''fields'', ''rho'']) (nodes f)
      ([''data'', d, ''fields'', ''E''] @ q) = None" for q
    using add_groups_ancestors(2) [OF assms(2), of q] by (simp only: anc)
  show ?thesis
    unfolding vacant_def list_ex_iff anc
    using a b c by (auto simp: add_groups_apply)
qed

lemma script_fields:
  assumes "wf_array mode0" "wf_array mode1" "shape mode0 = shape mode1"
  shows "\<exists>g h. write_rho_cylindrical (setup_root_attr h5_File_w i now) mode0 mode1 = Inr g \<and>
           write_e_2d_cartesian g data_ex data_ey data_ez = Inr h"
proof -
  define f where "f = setup_root_attr h5_File_w i now"
  have r: "root_attrs f ''basePath'' = Some (AStr (''/data/'' @ fmt_d i @ ''/''))"
    "root_attrs f ''fieldsPath'' = Some (AStr ''fields/'')"
    "vacant f [''data'', fmt_d i, ''fields'', ''rho'']"
    "vacant f [''data'', fmt_d i, ''fields'', ''E'']"
    unfolding f_def by (rule setup_root_attr_ready)+
  note run = write_rho_run(2) [OF r(1-3) assms(3) assms(1,2)]
  define g where "g = f\<lparr>nodes := (add_groups (ancestors [''data'', fmt_d i, ''fields'', ''rho'']) (nodes f))
                ([''data'', fmt_d i, ''fields'', ''rho''] \<mapsto>
                   Dataset [3, nrows mode0, ncols mode0]
                     (map f4 (elems mode0) @ map f4 (map fst (elems mode1))
                        @ map f4 (map snd (elems mode1)))
                     rho_attrs)\<rparr>"
  have g: "write_rho_cylindrical f mode0 mode1 = Inr g"
    unfolding g_def by (rule run)
  have "root_attrs g ''basePath'' = Some (AStr (''/data/'' @ fmt_d i @ ''/''))"
    "root_attrs g ''fieldsPath'' = Some (AStr ''fields/'')"
    using r(1,2) by (simp_all add: g_def)
  moreover have "vacant g [''data'', fmt_d i, ''fields'', ''E'']"
    unfolding g_def by (rule vacant_after_rho [OF r(3,4)])
  ultimately have "\<exists>h. write_e_2d_cartesian g data_ex data_ey data_ez = Inr h"
    using write_e_run by blast
  with g show ?thesis unfolding f_def by blast
qed

section \<open>The rounding of floats\<close>

lemma bitlen_pos: "0 < n \<Longrightarrow> 0 < bitlen n"
  by (induction n rule: bitlen.induct) (subst bitlen.simps, simp, smt (verit) bitlen.simps)

lemma bitlen_bounds:
  "0 < n \<Longrightarrow> 2 ^ nat (bitlen n - 1) \<le> n \<and> n < 2 ^ nat (bitlen n)"
proof (induction n rule: bitlen.induct)
  case (1 n)
  show ?case
  proof (cases "n = 1")
    case True
    have "bitlen 1 = 1" by (simp add: bitlen.simps)
    with True show ?thesis by simp
  next
    case False
    with 1 have pos: "0 < n div 2" by simp
    from 1 pos have IH: "2 ^ nat (bitlen (n div 2) - 1) \<le> n div 2"
      "n div 2 < 2 ^ nat (bitlen (n div 2))" by simp_all
    have bl: "bitlen n = 1 + bitlen (n div 2)"
      using 1(2) by (subst bitlen.simps) simp
    have bp: "0 < bitlen (n div 2)" using pos by (rule bitlen_pos)
    have e1: "nat (bitlen n - 1) = Suc (nat (bitlen (n div 2) - 1))"
      using bl bp by simp
    have e2: "nat (bitlen n) = Suc (nat (bitlen (n div 2)))"
      using bl bp by simp
    have "2 * 2 ^ nat (bitlen (n div 2) - 1) \<le> n"
      using IH(1) by linarith
    moreover have "n < 2 * 2 ^ nat (bitlen (n div 2))"
      using IH(2) by linarith
    ultimately show ?thesis by (simp add: e1 e2)
  qed
qed

lemma round_half_even_near: "\<bar>of_int (round_half_even y) - y\<bar> \<le> 1 / 2"
proof -
  define n where "n = \<lfloor>y\<rfloor>"
  have lo: "of_int n \<le> y" and hi: "y < of_int n + 1"
    unfolding n_def by linarith+
  show ?thesis
    unfolding round_half_even_def Let_def n_def [symmetric]
    using lo hi by (auto simp: abs_le_iff)
qed

lemma pow2_pos: "0 < pow2 e"
  by (simp add: pow2_def)

lemma ilog2_bounds:
  assumes "0 < x"
  shows "pow2 (ilog2 x) \<le> x \<and> x < pow2 (ilog2 x + 1)"
proof (cases "1 \<le> x")
  case True
  define n where "n = \<lfloor>x\<rfloor>"
  have n: "0 < n" "of_int n \<le> x" "x < of_int n + 1"
    using True unfolding n_def by linarith+
  define k where "k = bitlen n"
  have k: "0 < k" "2 ^ nat (k - 1) \<le> n" "n < 2 ^ nat k"
    using bitlen_pos [OF n(1)] bitlen_bounds [OF n(1)] by (simp_all add: k_def)
  have il: "ilog2 x = k - 1"
    using True by (simp add: ilog2_def k_def n_def)
  have p1: "(2::rat) ^ nat (k - 1) \<le> of_int n"
    using k(2) by (metis of_int_le_iff of_int_numeral of_int_power)
  have "pow2 (k - 1) = 2 ^ nat (k - 1)"
    using k(1) by (simp add: pow2_def)
  also note p1
  also note n(2)
  finally have lo: "pow2 (k - 1) \<le> x" .
  have "n + 1 \<le> 2 ^ nat k" using k(3) by simp
  then have p2: "of_int (n + 1) \<le> (2::rat) ^ nat k"
    by (metis of_int_le_iff of_int_numeral of_int_power)
  have "x < of_int (n + 1)" using n(3) by simp
  also note p2
  also have "(2::rat) ^ nat k = pow2 k"
    using k(1) by (simp add: pow2_def)
  finally have hi: "x < pow2 k" .
  show ?thesis using lo hi by (simp add: il)
next
  case False
  define y where "y = 1 / x"
  have y: "1 < y" using assms False by (simp add: y_def)
  define m where "m = \<lceil>y\<rceil> - 1"
  have m: "0 < m" "of_int m < y" "y \<le> of_int m + 1"
    using y unfolding m_def by linarith+
  define k where "k = bitlen m"
  have k: "0 < k" "2 ^ nat (k - 1) \<le> m" "m < 2 ^ nat k"
    using bitlen_pos [OF m(1)] bitlen_bounds [OF m(1)] by (simp_all add: k_def)
  have il: "ilog2 x = - k"
    using False by (simp add: ilog2_def k_def m_def y_def)
  have x: "x = 1 / y" using assms by (simp add: y_def)
  have "m + 1 \<le> 2 ^ nat k" using k(3) by simp
  then have p3: "of_int (m + 1) \<le> (2::rat) ^ nat k"
    by (metis of_int_le_iff of_int_numeral of_int_power)
  have "y \<le> of_int (m + 1)" using m(3) by simp
  also note p3
  finally have "y \<le> 2 ^ nat k" .
  then have "1 / 2 ^ nat k \<le> 1 / y"
    using y by (intro divide_left_mono) simp_all
  then have lo: "pow2 (- k) \<le> x"
    using k(1) by (simp add: pow2_def x)
  have "(2::rat) ^ nat (k - 1) \<le> of_int m"
    using k(2) by (metis of_int_le_iff of_int_numeral of_int_power)
  also note m(2)
  finally have yl: "2 ^ nat (k - 1) < y" .
  moreover have "0 < y * 2 ^ nat (k - 1)" using y by simp
  ultimately have "1 / y < 1 / 2 ^ nat (k - 1)"
    by (intro divide_strict_left_mono) simp_all
  moreover have "pow2 (- k + 1) = 1 / 2 ^ nat (k - 1)"
  proof (cases "k = 1")
    case True
    then show ?thesis by (simp add: pow2_def)
  next
    case False
    with k(1) have "- k + 1 < 0" by simp
    moreover have "nat (- (- k + 1)) = nat (k - 1)" by simp
    ultimately show ?thesis by (simp add: pow2_def)
  qed
  ultimately have hi: "x < pow2 (- k + 1)" by (simp add: x)
  show ?thesis using lo hi by (simp add: il)
qed

text \<open>
  The conversion at the edges of binary32: ties, the largest number, every value beyond
  it, and subnormal numbers.
\<close>

lemma f4_examples:
  "f4 (Fin 16777217) = Fin 16777216"
  "f4 (Fin 16777219) = Fin 16777220"
  "f4 (Fin (2 ^ 128 - 2 ^ 104)) = Fin (2 ^ 128 - 2 ^ 104)"
  "f4 (Fin (2 ^ 128 - 2 ^ 104 + 2 ^ 75)) = PInf"
  "f4 (Fin (- (2 ^ 128 - 2 ^ 104 + 2 ^ 75))) = NInf"
  "f4 (Fin (2 ^ 128)) = PInf"
  "f4 (Fin (1 / 2 ^ 149)) = Fin (1 / 2 ^ 149)"
  "f4 (Fin (1 / 2 ^ 150)) = Fin 0"
  "f4 (Fin (3 / 2 ^ 150)) = Fin (1 / 2 ^ 148)"
  "f4 PInf = PInf" "f4 NInf = NInf" "f4 NaN = NaN"
  by code_simp+

text \<open>Beyond the largest binary32 number the stored value is an infinity.\<close>

lemma f4_overflow:
  "flt_max < x \<Longrightarrow> f4 (Fin x) = PInf"
  "x < - flt_max \<Longrightarrow> f4 (Fin x) = NInf"
proof -
  have "0 < flt_max" by (simp add: flt_max_def)
  then show "flt_max < x \<Longrightarrow> f4 (Fin x) = PInf" "x < - flt_max \<Longrightarrow> f4 (Fin x) = NInf"
    by (simp_all add: f4.simps)
qed

end
